theory Spec2Isabelle
  imports Main "HOL-Library.AList" "HOL-Library.Multiset" "HOL-Library.List_Lexorder" "HOL-Library.Char_ord"
begin

section \<open>League table widget: data model\<close>

text \<open>
  The widget (\<^verbatim>\<open>widget.js\<close>) keeps its state in module-level variables and reacts to
  events: a message from the host page, DOM-ready, timers, a change of the league
  selector and a click on a team cell. Each handler is modelled as a function from the
  state before the event to the state after it.

  A league is \<^verbatim>\<open>{ id, name }\<close>; the selector also reads \<^verbatim>\<open>div\<close> and \<^verbatim>\<open>label\<close>.
  A field that can be missing is an \<open>option\<close>: \<open>None\<close> stands for \<^verbatim>\<open>undefined\<close> and
  \<^verbatim>\<open>null\<close>, which the code never tells apart.
\<close>

record league =
  l_id :: string
  l_name :: "string option"
  l_div :: "string option"
  l_label :: "string option"

text \<open>
  A team row. The numeric fields are JavaScript numbers holding match statistics; they are
  modelled as integers.
\<close>

record row =
  equipeName :: "string option"
  points :: "int option"
  victoires :: "int option"
  defaites :: "int option"
  nuls :: "int option"
  forfaits :: "int option"
  butsPour :: "int option"
  butsContre :: "int option"
  differentiel :: "int option"
  teamUrl :: "string option"
  position :: "int option"

text \<open>
  The payload of a message is one object; \<^verbatim>\<open>INIT_WIDGET\<close> reads \<^verbatim>\<open>leagues\<close> and
  \<^verbatim>\<open>standingsByLeague\<close>, \<^verbatim>\<open>UPDATE_TABLE\<close> reads \<^verbatim>\<open>leagueId\<close> and \<^verbatim>\<open>standings\<close>.
  An object with string keys is an association list in \<^verbatim>\<open>Object.keys\<close> order.
  \<open>p_standings = Some rows\<close> says that \<^verbatim>\<open>payload.standings\<close> is an array.
  \<open>p_props\<close> lists every own property of the payload in key order, with \<open>Some rows\<close>
  where the value is an array and \<open>None\<close> elsewhere; only \<^verbatim>\<open>fallbackShape\<close> reads it.
\<close>

record payload =
  p_leagues :: "league list option"
  p_standingsByLeague :: "(string \<times> row list) list option"
  p_leagueId :: "string option"
  p_standings :: "row list option"
  p_props :: "(string \<times> row list option) list"

record message =
  m_type :: "string option"
  m_payload :: "payload option"

text \<open>The message posted to the parent window by a click on a team cell.\<close>

record team_click =
  tc_leagueId :: "string option"
  tc_equipeName :: "string option"
  tc_url :: string

text \<open>The league selector element: its options (value, label) and its current value.\<close>

record select_el =
  sel_options :: "(string \<times> string) list"
  sel_value :: string

text \<open>Callbacks handed to \<^verbatim>\<open>setTimeout\<close>, \<^verbatim>\<open>requestAnimationFrame\<close> and \<^verbatim>\<open>then\<close>.\<close>

datatype callback = Bootstrap | RetryRender string | Redraw

text \<open>
  An exception leaves in place what was assigned before it was thrown: a handler that
  throws returns the error with the state at that point.
\<close>

datatype error = TypeError

text \<open>
  Rows and arrays of rows are objects: \<^verbatim>\<open>renderLeague\<close> copies rows, sorts an array in
  place and writes \<^verbatim>\<open>position\<close> into row objects, so the model keeps a store. A row
  object lives in \<open>rowHeap\<close> and an array of rows in \<open>arrayHeap\<close>; an address is the index
  in the heap, and allocation appends. \<open>tableData\<close> is the array last handed to
  \<^verbatim>\<open>table.setData\<close>.

  \<^verbatim>\<open>standingsByLeague\<close> holds a plain object. \<open>standingsByLeague\<close> lists its own
  properties, a league id with the address of its array, and \<open>standingsProto\<close> is its
  prototype: \<open>None\<close> for \<^verbatim>\<open>Object.prototype\<close>, which every such object starts with, and
  \<open>Some a\<close> once an assignment to \<^verbatim>\<open>__proto__\<close> has made the array at \<open>a\<close> the prototype.

  \<open>rendered\<close> records the league id of every call of \<^verbatim>\<open>renderLeague\<close>, \<open>outbox\<close> every
  message posted to the parent, \<open>timers\<close> every callback scheduled, \<open>redraws\<close> counts
  \<^verbatim>\<open>table.redraw\<close>. \<open>leagueSelect\<close> is \<open>None\<close> when the page has no \<^verbatim>\<open>#leagueSelect\<close>.
\<close>

type_synonym addr = nat

record state =
  rowHeap :: "row list"
  arrayHeap :: "addr list list"
  tableCreated :: bool
  tableData :: "addr option"
  activeLeagueId :: "string option"
  standingsByLeague :: "(string \<times> addr) list"
  standingsProto :: "addr option"
  leagues :: "league list"
  domReady :: bool
  pendingPayload :: "payload option"
  initReceived :: bool
  leagueSelect :: "select_el option"
  timers :: "callback list"
  outbox :: "team_click list"
  rendered :: "string list"
  redraws :: nat

section \<open>Sorting\<close>

text \<open>\<^verbatim>\<open>v ?? 0\<close> on a number that may be missing.\<close>

definition orZero :: "int option \<Rightarrow> int" where
  "orZero v = (case v of None \<Rightarrow> 0 | Some n \<Rightarrow> n)"

text \<open>\<^verbatim>\<open>String(v || "")\<close> on a string that may be missing.\<close>

definition orEmpty :: "string option \<Rightarrow> string" where
  "orEmpty v = (case v of None \<Rightarrow> [] | Some s \<Rightarrow> s)"

text \<open>\<^verbatim>\<open>x || y\<close> on numbers: \<open>x\<close> unless it is zero.\<close>

definition orElse :: "int \<Rightarrow> int \<Rightarrow> int" where
  "orElse x y = (if x \<noteq> 0 then x else y)"

text \<open>
  The comparator passed to \<^verbatim>\<open>rows.sort\<close>. \<^verbatim>\<open>localeCompare\<close> belongs to the browser and
  is the parameter \<open>lc\<close>.
\<close>

definition compareRows :: "(string \<Rightarrow> string \<Rightarrow> int) \<Rightarrow> row \<Rightarrow> row \<Rightarrow> int" where
  "compareRows lc a b =
     orElse (orZero (points b) - orZero (points a))
    (orElse (orZero (differentiel b) - orZero (differentiel a))
    (orElse (orZero (butsPour b) - orZero (butsPour a))
    (orElse (orZero (victoires b) - orZero (victoires a))
            (lc (orEmpty (equipeName a)) (orEmpty (equipeName b))))))"

text \<open>
  \<^verbatim>\<open>Array.prototype.sort\<close> with a comparator is a primitive of the runtime. ECMAScript
  requires it to be stable and to order \<open>a\<close> before \<open>b\<close> when the comparator is negative;
  it is modelled by stable insertion sort.
\<close>

fun insertBy :: "('a \<Rightarrow> 'a \<Rightarrow> int) \<Rightarrow> 'a \<Rightarrow> 'a list \<Rightarrow> 'a list" where
  "insertBy cmp x [] = [x]"
| "insertBy cmp x (y # ys) = (if cmp x y \<le> 0 then x # y # ys else y # insertBy cmp x ys)"

fun arraySort :: "('a \<Rightarrow> 'a \<Rightarrow> int) \<Rightarrow> 'a list \<Rightarrow> 'a list" where
  "arraySort cmp [] = []"
| "arraySort cmp (x # xs) = insertBy cmp x (arraySort cmp xs)"

section \<open>The store\<close>

text \<open>
  A new array holding new row objects with the given contents: the address of the array
  and the state after the allocation.
\<close>

definition allocArray :: "row list \<Rightarrow> state \<Rightarrow> addr \<times> state" where
  "allocArray rows s =
     (length (arrayHeap s),
      s\<lparr>rowHeap := rowHeap s @ rows,
        arrayHeap := arrayHeap s @ [[length (rowHeap s) ..< length (rowHeap s) + length rows]]\<rparr>)"

text \<open>The rows an array holds.\<close>

definition rowsAt :: "state \<Rightarrow> addr \<Rightarrow> row list" where
  "rowsAt s a = map (\<lambda>r. rowHeap s ! r) (arrayHeap s ! a)"

text \<open>
  A property that is not the object's own is looked up along the prototype chain. These
  are the string-named properties of \<^verbatim>\<open>Object.prototype\<close> and of \<^verbatim>\<open>Array.prototype\<close>
  in ECMAScript 2023; each holds a function, but for \<^verbatim>\<open>__proto__\<close>, whose getter gives
  the prototype of the object it is read from.
\<close>

definition objectPrototypeKeys :: "string list" where
  "objectPrototypeKeys =
     [''constructor'', ''hasOwnProperty'', ''isPrototypeOf'', ''propertyIsEnumerable'',
      ''toLocaleString'', ''toString'', ''valueOf'', ''__proto__'', ''__defineGetter__'',
      ''__defineSetter__'', ''__lookupGetter__'', ''__lookupSetter__'']"

definition arrayPrototypeKeys :: "string list" where
  "arrayPrototypeKeys =
     [''at'', ''concat'', ''constructor'', ''copyWithin'', ''entries'', ''every'', ''fill'',
      ''filter'', ''find'', ''findIndex'', ''findLast'', ''findLastIndex'', ''flat'',
      ''flatMap'', ''forEach'', ''includes'', ''indexOf'', ''join'', ''keys'',
      ''lastIndexOf'', ''map'', ''pop'', ''push'', ''reduce'', ''reduceRight'', ''reverse'',
      ''shift'', ''slice'', ''some'', ''sort'', ''splice'', ''toLocaleString'',
      ''toReversed'', ''toSorted'', ''toSpliced'', ''toString'', ''unshift'', ''values'',
      ''with'']"

text \<open>The name of the array index \<open>n\<close>: its decimal numeral.\<close>

function decimal :: "nat \<Rightarrow> string" where
  "decimal n =
     (if n < 10 then [''0123456789'' ! n] else decimal (n div 10) @ [''0123456789'' ! (n mod 10)])"
  by pat_completeness auto
termination
  by (relation "measure id") auto

declare decimal.simps [simp del]

text \<open>
  What \<^verbatim>\<open>standingsByLeague[k]\<close> evaluates to: an array, a number, some other object
  (a function, a row, \<^verbatim>\<open>Object.prototype\<close>) or \<^verbatim>\<open>undefined\<close>.
\<close>

datatype jsvalue = Undefined | ArrayRef addr | NumberVal int | ObjectVal

text \<open>
  \<^verbatim>\<open>standingsByLeague[k]\<close>: the object's own property if it has one; otherwise what
  the prototype chain gives. With \<^verbatim>\<open>Object.prototype\<close> as prototype these are its
  properties. With an array as prototype, \<^verbatim>\<open>__proto__\<close> gives that array, an index
  below its length gives a row, \<^verbatim>\<open>length\<close> gives its length, and then come the
  properties of \<^verbatim>\<open>Array.prototype\<close> and \<^verbatim>\<open>Object.prototype\<close>.
\<close>

definition getStandings :: "state \<Rightarrow> string \<Rightarrow> jsvalue" where
  "getStandings s k =
     (case map_of (standingsByLeague s) k of
        Some a \<Rightarrow> ArrayRef a
      | None \<Rightarrow>
          (case standingsProto s of
             None \<Rightarrow> if k \<in> set objectPrototypeKeys then ObjectVal else Undefined
           | Some a \<Rightarrow>
               if k = ''__proto__'' then ArrayRef a
               else if k \<in> set (map decimal [0 ..< length (arrayHeap s ! a)]) then ObjectVal
               else if k = ''length'' then NumberVal (int (length (arrayHeap s ! a)))
               else if k \<in> set arrayPrototypeKeys \<or> k \<in> set objectPrototypeKeys then ObjectVal
               else Undefined))"

text \<open>
  \<^verbatim>\<open>standingsByLeague[k] = v\<close> for an array \<open>v\<close>. Assigning to \<^verbatim>\<open>__proto__\<close> runs the
  setter inherited from \<^verbatim>\<open>Object.prototype\<close>, which makes \<open>v\<close> the prototype and creates
  no property, unless the object has an own property of that name (a message can carry
  one). Any other name becomes, or stays, an own property.
\<close>

definition setStandings :: "string \<Rightarrow> addr \<Rightarrow> state \<Rightarrow> state" where
  "setStandings k v s =
     (if k = ''__proto__'' \<and> map_of (standingsByLeague s) k = None
      then s\<lparr>standingsProto := Some v\<rparr>
      else s\<lparr>standingsByLeague := AList.update k v (standingsByLeague s)\<rparr>)"

text \<open>
  \<^verbatim>\<open>(standingsByLeague[leagueId] || []).map(...)\<close>: the rows to copy. A falsy value
  (\<^verbatim>\<open>undefined\<close>, the number 0) gives the empty array; a value that is not an array
  has no \<^verbatim>\<open>map\<close>, and calling it throws a \<^verbatim>\<open>TypeError\<close>.
\<close>

definition mapSource :: "state \<Rightarrow> string \<Rightarrow> error + row list" where
  "mapSource s leagueId =
     (case getStandings s leagueId of
        Undefined \<Rightarrow> Inr []
      | ArrayRef a \<Rightarrow> Inr (rowsAt s a)
      | NumberVal n \<Rightarrow> if n = 0 then Inr [] else Inl TypeError
      | ObjectVal \<Rightarrow> Inl TypeError)"

text \<open>The rows the table shows: those of the array last given to \<^verbatim>\<open>setData\<close>.\<close>

definition displayedRows :: "state \<Rightarrow> row list" where
  "displayedRows s = (case tableData s of None \<Rightarrow> [] | Some a \<Rightarrow> rowsAt s a)"

section \<open>renderLeague\<close>

text \<open>\<^verbatim>\<open>rows.sort(...)\<close>: the array at \<open>a\<close> is reordered in place.\<close>

definition sortArray :: "(string \<Rightarrow> string \<Rightarrow> int) \<Rightarrow> addr \<Rightarrow> state \<Rightarrow> state" where
  "sortArray lc a s =
     s\<lparr>arrayHeap := (arrayHeap s)
        [a := arraySort (\<lambda>x y. compareRows lc (rowHeap s ! x) (rowHeap s ! y)) (arrayHeap s ! a)]\<rparr>"

text \<open>\<^verbatim>\<open>rows.forEach((r, i) => r.position = i + 1)\<close>: each row object is written.\<close>

definition setPosition :: "nat \<times> addr \<Rightarrow> row list \<Rightarrow> row list" where
  "setPosition ir h = h[snd ir := (h ! snd ir)\<lparr>position := Some (int (fst ir) + 1)\<rparr>]"

definition forEachPosition :: "addr \<Rightarrow> state \<Rightarrow> state" where
  "forEachPosition a s =
     s\<lparr>rowHeap := fold setPosition (enumerate 0 (arrayHeap s ! a)) (rowHeap s)\<rparr>"

text \<open>
  \<^verbatim>\<open>initTable\<close> creates the Tabulator instance; its layout listeners are not modelled.
\<close>

definition initTable :: "state \<Rightarrow> state" where
  "initTable s = s\<lparr>tableCreated := True\<rparr>"

text \<open>
  \<^verbatim>\<open>table.setData(rows).then(() => table.redraw(true))\<close>: the table shows the array,
  the redraw is scheduled.
\<close>

definition setData :: "addr \<Rightarrow> state \<Rightarrow> state" where
  "setData a s = s\<lparr>tableData := Some a, timers := timers s @ [Redraw]\<rparr>"

text \<open>
  \<^verbatim>\<open>renderLeague(leagueId)\<close>. The active league is set first; if reading the rows
  throws, nothing more happens.
\<close>

definition renderLeague :: "(string \<Rightarrow> string \<Rightarrow> int) \<Rightarrow> string \<Rightarrow> state \<Rightarrow> error \<times> state + state" where
  "renderLeague lc leagueId s =
     (let s1 = s\<lparr>activeLeagueId := Some leagueId, rendered := rendered s @ [leagueId]\<rparr>
      in case mapSource s1 leagueId of
           Inl e \<Rightarrow> Inl (e, s1)
         | Inr src \<Rightarrow>
             (let (rows, s2) = allocArray src s1;
                  s3 = sortArray lc rows s2;
                  s4 = forEachPosition rows s3;
                  s5 = (if tableCreated s4 then s4 else initTable s4)
              in Inr (setData rows s5)))"

section \<open>Initialisation\<close>

text \<open>JavaScript truthiness of a string that may be missing: present and not empty.\<close>

definition truthy :: "string option \<Rightarrow> bool" where
  "truthy v = (case v of None \<Rightarrow> False | Some s \<Rightarrow> s \<noteq> [])"

text \<open>
  \<^verbatim>\<open>fallbackShape(obj)\<close> walks \<^verbatim>\<open>Object.keys(obj || {})\<close> and assigns the properties
  holding an array to a new object: the result is the own properties of that object and,
  when the key \<^verbatim>\<open>__proto__\<close> held an array, that array as its prototype.
\<close>

definition keepArray ::
  "string \<times> row list option \<Rightarrow> (string \<times> row list) list \<times> row list option
     \<Rightarrow> (string \<times> row list) list \<times> row list option" where
  "keepArray kv out =
     (case snd kv of
        None \<Rightarrow> out
      | Some rows \<Rightarrow>
          if fst kv = ''__proto__'' \<and> map_of (fst out) (fst kv) = None
          then (fst out, Some rows)
          else (AList.update (fst kv) rows (fst out), snd out))"

definition fallbackShape :: "payload option \<Rightarrow> (string \<times> row list) list \<times> row list option" where
  "fallbackShape obj = (case obj of None \<Rightarrow> ([], None) | Some p \<Rightarrow> fold keepArray (p_props p) ([], None))"

definition keysToLeagues :: "(string \<times> 'a) list \<Rightarrow> league list" where
  "keysToLeagues obj =
     map (\<lambda>kv. \<lparr>l_id = fst kv, l_name = Some (fst kv), l_div = None, l_label = None\<rparr>) obj"

text \<open>\<^verbatim>\<open>opt.name || opt.div || opt.label || opt.id\<close>\<close>

definition optionLabel :: "league \<Rightarrow> string" where
  "optionLabel opt =
     (if truthy (l_name opt) then orEmpty (l_name opt)
      else if truthy (l_div opt) then orEmpty (l_div opt)
      else if truthy (l_label opt) then orEmpty (l_label opt)
      else l_id opt)"

definition populateLeagueDropdown :: "league list \<Rightarrow> state \<Rightarrow> state" where
  "populateLeagueDropdown items s =
     (case leagueSelect s of
        None \<Rightarrow> s
      | Some sel \<Rightarrow>
          s\<lparr>leagueSelect := Some
             \<lparr>sel_options = map (\<lambda>opt. (l_id opt, optionLabel opt)) items,
              sel_value = (case items of [] \<Rightarrow> [] | it # _ \<Rightarrow> l_id it)\<rparr>\<rparr>)"

text \<open>\<^verbatim>\<open>if (sel) sel.value = firstId\<close>\<close>

definition selectValue :: "string \<Rightarrow> state \<Rightarrow> state" where
  "selectValue v s =
     (case leagueSelect s of
        None \<Rightarrow> s
      | Some sel \<Rightarrow> s\<lparr>leagueSelect := Some (sel\<lparr>sel_value := v\<rparr>)\<rparr>)"

text \<open>
  The first render, then one on the next animation frame and one after 60 ms; both
  callbacks have the same body, \<open>retryRender\<close> below.
\<close>

definition scheduleInitialRender :: "(string \<Rightarrow> string \<Rightarrow> int) \<Rightarrow> string \<Rightarrow> state \<Rightarrow> error \<times> state + state" where
  "scheduleInitialRender lc leagueId s =
     (case renderLeague lc leagueId (s\<lparr>activeLeagueId := Some leagueId\<rparr>) of
        Inl e \<Rightarrow> Inl e
      | Inr s1 \<Rightarrow> Inr (s1\<lparr>timers := timers s1 @ [RetryRender leagueId, RetryRender leagueId]\<rparr>))"

definition retryRender :: "(string \<Rightarrow> string \<Rightarrow> int) \<Rightarrow> string \<Rightarrow> state \<Rightarrow> error \<times> state + state" where
  "retryRender lc leagueId s =
     (if activeLeagueId s = Some leagueId then renderLeague lc leagueId s else Inr s)"

text \<open>
  The arrays of an incoming mapping become objects of the store. A message arrives as a
  structured clone, so these objects are new and nothing else refers to them.
\<close>

fun allocStandings :: "(string \<times> row list) list \<Rightarrow> state \<Rightarrow> (string \<times> addr) list \<times> state" where
  "allocStandings [] s = ([], s)"
| "allocStandings (kv # rest) s =
     (let (a, s1) = allocArray (snd kv) s;
          (m, s2) = allocStandings rest s1
      in ((fst kv, a) # m, s2))"

definition allocProto :: "row list option \<Rightarrow> state \<Rightarrow> addr option \<times> state" where
  "allocProto pr s =
     (case pr of
        None \<Rightarrow> (None, s)
      | Some rows \<Rightarrow> (let (a, s1) = allocArray rows s in (Some a, s1)))"

text \<open>
  \<^verbatim>\<open>processInitPayload(payload)\<close>. Reading \<^verbatim>\<open>payload.leagues\<close> of a missing payload
  throws a \<^verbatim>\<open>TypeError\<close> before anything is assigned. The object of a message has
  \<^verbatim>\<open>Object.prototype\<close> as prototype.
\<close>

definition processInitPayload :: "(string \<Rightarrow> string \<Rightarrow> int) \<Rightarrow> payload option \<Rightarrow> state \<Rightarrow> error \<times> state + state" where
  "processInitPayload lc pl s =
     (case pl of
        None \<Rightarrow> Inl (TypeError, s)
      | Some p \<Rightarrow>
          (let ls = (case p_leagues p of None \<Rightarrow> [] | Some l \<Rightarrow> l);
               shape = (case p_standingsByLeague p of None \<Rightarrow> fallbackShape pl | Some m \<Rightarrow> (m, None));
               (sbl, s1) = allocStandings (fst shape) s;
               (pr, s1') = allocProto (snd shape) s1;
               s2 = s1'\<lparr>leagues := ls, standingsByLeague := sbl, standingsProto := pr\<rparr>;
               items = (if ls \<noteq> [] then ls else keysToLeagues sbl);
               s3 = populateLeagueDropdown items s2
           in case items of
                [] \<Rightarrow> Inr s3
              | it # _ \<Rightarrow> scheduleInitialRender lc (l_id it) (selectValue (l_id it) s3)))"

section \<open>Message handling\<close>

text \<open>
  \<^verbatim>\<open>onMessageFromHost(event)\<close>; the argument is \<^verbatim>\<open>event.data\<close>, \<open>None\<close> when it is
  missing. An \<^verbatim>\<open>UPDATE_TABLE\<close> stores the array of the message under the league id and
  renders when that league is the active one.
\<close>

definition updateTable :: "(string \<Rightarrow> string \<Rightarrow> int) \<Rightarrow> string \<Rightarrow> row list \<Rightarrow> state \<Rightarrow> error \<times> state + state" where
  "updateTable lc leagueId standings s =
     (let (a, s1) = allocArray standings s;
          s2 = setStandings leagueId a s1
      in if activeLeagueId s2 = Some leagueId then renderLeague lc leagueId s2 else Inr s2)"

definition onMessageFromHost :: "(string \<Rightarrow> string \<Rightarrow> int) \<Rightarrow> message option \<Rightarrow> state \<Rightarrow> error \<times> state + state" where
  "onMessageFromHost lc dat s =
     (let m = (case dat of None \<Rightarrow> \<lparr>m_type = None, m_payload = None\<rparr> | Some d \<Rightarrow> d)
      in if \<not> truthy (m_type m) then Inr s
         else if m_type m = Some ''INIT_WIDGET'' then
           (let s1 = s\<lparr>initReceived := True\<rparr>
            in if \<not> domReady s1 then Inr (s1\<lparr>pendingPayload := m_payload m\<rparr>)
               else processInitPayload lc (m_payload m) s1)
         else if m_type m = Some ''UPDATE_TABLE'' then
           (case m_payload m of
              None \<Rightarrow> Inr s
            | Some p \<Rightarrow>
                (case p_standings p of
                   None \<Rightarrow> Inr s
                 | Some standings \<Rightarrow>
                     if truthy (p_leagueId p)
                     then updateTable lc (orEmpty (p_leagueId p)) standings s
                     else Inr s))
         else Inr s)"

section \<open>DOM-ready and timers\<close>

text \<open>The sample shown when no host sends data.\<close>

definition sampleRow :: "string \<Rightarrow> int \<Rightarrow> int \<Rightarrow> int \<Rightarrow> int \<Rightarrow> int \<Rightarrow> int \<Rightarrow> int \<Rightarrow> int \<Rightarrow> string \<Rightarrow> row" where
  "sampleRow n p v d nl f bp bc df u =
     \<lparr>equipeName = Some n, points = Some p, victoires = Some v, defaites = Some d,
      nuls = Some nl, forfaits = Some f, butsPour = Some bp, butsContre = Some bc,
      differentiel = Some df, teamUrl = Some u, position = None\<rparr>"

definition sampleRows :: "row list" where
  "sampleRows =
     [sampleRow ''CHAKS'' 12 4 0 0 0 16 2 14 ''/terrain1-chaks'',
      sampleRow ''Kelb United'' 9 3 1 0 0 12 6 6 ''/terrain1-kelb-united'',
      sampleRow ''Leaf'' 9 3 1 0 0 10 5 5 ''/terrain1-leaf'',
      sampleRow ''Northside'' 6 2 2 0 0 8 8 0 ''/terrain1-northside'',
      sampleRow ''Royal Academy'' 3 1 3 0 1 5 12 (-7) ''/terrain1-royal-academy'']"

text \<open>A league object read as a row has none of the fields of a row.\<close>

definition noFields :: row where
  "noFields =
     \<lparr>equipeName = None, points = None, victoires = None, defaites = None, nuls = None,
      forfaits = None, butsPour = None, butsContre = None, differentiel = None,
      teamUrl = None, position = None\<rparr>"

definition SAMPLE_PAYLOAD :: payload where
  "SAMPLE_PAYLOAD =
     \<lparr>p_leagues = Some [\<lparr>l_id = ''Tr1'', l_name = Some ''Club Tomohawk'', l_div = None, l_label = None\<rparr>],
      p_standingsByLeague = Some [(''Tr1'', sampleRows)],
      p_leagueId = None,
      p_standings = None,
      p_props = [(''leagues'', Some [noFields]), (''standingsByLeague'', None)]\<rparr>"

text \<open>The body of the timer set at DOM-ready (250 ms).\<close>

definition bootstrapTimer :: "(string \<Rightarrow> string \<Rightarrow> int) \<Rightarrow> state \<Rightarrow> error \<times> state + state" where
  "bootstrapTimer lc s =
     (if \<not> initReceived s \<and> length (map fst (standingsByLeague s)) = 0
      then processInitPayload lc (Some SAMPLE_PAYLOAD) s
      else Inr s)"

text \<open>
  The \<^verbatim>\<open>DOMContentLoaded\<close> handler: a payload that arrived early is processed now, and
  the bootstrap timer is set.
\<close>

definition onDOMContentLoaded :: "(string \<Rightarrow> string \<Rightarrow> int) \<Rightarrow> state \<Rightarrow> error \<times> state + state" where
  "onDOMContentLoaded lc s =
     (let s1 = s\<lparr>domReady := True\<rparr>
      in case (case pendingPayload s1 of
                 None \<Rightarrow> Inr s1
               | Some p \<Rightarrow>
                   (case processInitPayload lc (Some p) s1 of
                      Inl e \<Rightarrow> Inl e
                    | Inr s2 \<Rightarrow> Inr (s2\<lparr>pendingPayload := None\<rparr>)))
         of Inl e \<Rightarrow> Inl e
          | Inr s3 \<Rightarrow> Inr (s3\<lparr>timers := timers s3 @ [Bootstrap]\<rparr>))"

text \<open>The \<^verbatim>\<open>change\<close> listener of the selector, with the value the user picked.\<close>

definition onSelectChange :: "(string \<Rightarrow> string \<Rightarrow> int) \<Rightarrow> string \<Rightarrow> state \<Rightarrow> error \<times> state + state" where
  "onSelectChange lc v s =
     (case leagueSelect s of
        None \<Rightarrow> Inr s
      | Some sel \<Rightarrow> renderLeague lc v (s\<lparr>leagueSelect := Some (sel\<lparr>sel_value := v\<rparr>)\<rparr>))"

text \<open>\<^verbatim>\<open>table.redraw(true)\<close>, the continuation of \<^verbatim>\<open>setData\<close>.\<close>

definition redraw :: "state \<Rightarrow> state" where
  "redraw s = s\<lparr>redraws := redraws s + 1\<rparr>"

definition fire :: "(string \<Rightarrow> string \<Rightarrow> int) \<Rightarrow> callback \<Rightarrow> state \<Rightarrow> error \<times> state + state" where
  "fire lc cb s =
     (case cb of
        Bootstrap \<Rightarrow> bootstrapTimer lc s
      | RetryRender leagueId \<Rightarrow> retryRender lc leagueId s
      | Redraw \<Rightarrow> Inr (redraw s))"

text \<open>The state when the script has loaded, on a page that has the selector.\<close>

definition initialState :: state where
  "initialState =
     \<lparr>rowHeap = [], arrayHeap = [], tableCreated = False, tableData = None,
      activeLeagueId = None, standingsByLeague = [], standingsProto = None, leagues = [],
      domReady = False,
      pendingPayload = None, initReceived = False,
      leagueSelect = Some \<lparr>sel_options = [], sel_value = []\<rparr>,
      timers = [], outbox = [], rendered = [], redraws = 0\<rparr>"

section \<open>The team cell\<close>

text \<open>
  \<^verbatim>\<open>escapeHtml\<close> replaces each of the five characters by its entity; \<^verbatim>\<open>escapeAttr\<close>
  replaces the double quote only. The five characters are ASCII, so replacing bytes of
  the UTF-8 text is replacing characters.
\<close>

definition escapeChar :: "char \<Rightarrow> string" where
  "escapeChar c =
     (if c = CHR ''&'' then ''&amp;''
      else if c = CHR ''<'' then ''&lt;''
      else if c = CHR ''>'' then ''&gt;''
      else if c = CHR 0x22 then ''&quot;''
      else if c = CHR 0x27 then ''&#39;''
      else [c])"

definition escapeHtml :: "string \<Rightarrow> string" where
  "escapeHtml s = concat (map escapeChar s)"

definition escapeAttr :: "string \<Rightarrow> string" where
  "escapeAttr s = concat (map (\<lambda>c. if c = CHR 0x22 then ''&quot;'' else [c]) s)"

text \<open>The formatter of the team column: the markup of the cell of a row.\<close>

definition formatter :: "row \<Rightarrow> string" where
  "formatter r =
     (let label = orEmpty (equipeName r);
          url = teamUrl r;
          safe = escapeHtml label
      in if truthy url
         then ''<span class='' @ [CHR 0x22] @ ''team-link'' @ [CHR 0x22] @ '' data-href='' @ [CHR 0x22]
                @ escapeAttr (orEmpty url) @ [CHR 0x22] @ ''>'' @ safe @ ''</span>''
         else ''<span class='' @ [CHR 0x22] @ ''team-text'' @ [CHR 0x22] @ ''>'' @ safe @ ''</span>'')"

text \<open>\<^verbatim>\<open>cellClick\<close> of the team column, on the data of the row that was clicked.\<close>

definition cellClick :: "row \<Rightarrow> state \<Rightarrow> state" where
  "cellClick dat s =
     (if truthy (teamUrl dat)
      then s\<lparr>outbox := outbox s @
             [\<lparr>tc_leagueId = activeLeagueId s, tc_equipeName = equipeName dat,
               tc_url = orEmpty (teamUrl dat)\<rparr>]\<rparr>
      else s)"

section \<open>Notions used to state the properties\<close>

text \<open>
  What is asked of \<^verbatim>\<open>localeCompare\<close>: any two strings are comparable and the order is
  transitive. A collation order has both properties.
\<close>

definition consistentCompare :: "(string \<Rightarrow> string \<Rightarrow> int) \<Rightarrow> bool" where
  "consistentCompare lc \<longleftrightarrow>
     (\<forall>a b. lc a b \<le> 0 \<or> lc b a \<le> 0) \<and>
     (\<forall>a b c. lc a b \<le> 0 \<longrightarrow> lc b c \<le> 0 \<longrightarrow> lc a c \<le> 0)"

definition totalCmp :: "('a \<Rightarrow> 'a \<Rightarrow> int) \<Rightarrow> bool" where
  "totalCmp cmp \<longleftrightarrow> (\<forall>a b. cmp a b \<le> 0 \<or> cmp b a \<le> 0)"

definition transCmp :: "('a \<Rightarrow> 'a \<Rightarrow> int) \<Rightarrow> bool" where
  "transCmp cmp \<longleftrightarrow> (\<forall>a b c. cmp a b \<le> 0 \<longrightarrow> cmp b c \<le> 0 \<longrightarrow> cmp a c \<le> 0)"

text \<open>
  The ranking as the specification words it: more points first, then the better goal
  differential, then more goals scored, then more wins, then the team name in ascending
  order; a missing number counts as 0 and a missing name as the empty string.
\<close>

definition rankedBefore :: "(string \<Rightarrow> string \<Rightarrow> int) \<Rightarrow> row \<Rightarrow> row \<Rightarrow> bool" where
  "rankedBefore lc a b \<longleftrightarrow>
     orZero (points a) > orZero (points b) \<or>
     orZero (points a) = orZero (points b) \<and>
     (orZero (differentiel a) > orZero (differentiel b) \<or>
      orZero (differentiel a) = orZero (differentiel b) \<and>
      (orZero (butsPour a) > orZero (butsPour b) \<or>
       orZero (butsPour a) = orZero (butsPour b) \<and>
       (orZero (victoires a) > orZero (victoires b) \<or>
        orZero (victoires a) = orZero (victoires b) \<and>
        lc (orEmpty (equipeName a)) (orEmpty (equipeName b)) \<le> 0)))"


definition assignPositions :: "nat \<Rightarrow> row list \<Rightarrow> row list" where
  "assignPositions i rows = map (\<lambda>(j, r). r\<lparr>position := Some (int j + 1)\<rparr>) (enumerate i rows)"

text \<open>
  The rows the mapping holds for a league id: those of the array found under that name,
  none when what is found there is not an array. A league id is readable when
  \<^verbatim>\<open>renderLeague\<close> can read its rows: what is found under it is an array or is falsy.
\<close>

definition storedRows :: "state \<Rightarrow> string \<Rightarrow> row list" where
  "storedRows s leagueId =
     (case getStandings s leagueId of
        Undefined \<Rightarrow> [] | ArrayRef a \<Rightarrow> rowsAt s a | NumberVal n \<Rightarrow> [] | ObjectVal \<Rightarrow> [])"

definition readable :: "state \<Rightarrow> string \<Rightarrow> bool" where
  "readable s leagueId =
     (case getStandings s leagueId of
        Undefined \<Rightarrow> True | ArrayRef a \<Rightarrow> True | NumberVal n \<Rightarrow> n = 0 | ObjectVal \<Rightarrow> False)"

text \<open>
  The references of the array that \<^verbatim>\<open>renderLeague\<close> builds, once sorted: the copies
  are the objects allocated after the existing ones. Then the state a render that does
  not throw ends in, and the state a render that throws ends in.
\<close>

definition renderedRefs :: "(string \<Rightarrow> string \<Rightarrow> int) \<Rightarrow> string \<Rightarrow> state \<Rightarrow> addr list" where
  "renderedRefs lc l s =
     arraySort (\<lambda>x y. compareRows lc ((rowHeap s @ storedRows s l) ! x) ((rowHeap s @ storedRows s l) ! y))
       [length (rowHeap s) ..< length (rowHeap s) + length (storedRows s l)]"

definition drawn :: "(string \<Rightarrow> string \<Rightarrow> int) \<Rightarrow> string \<Rightarrow> state \<Rightarrow> state" where
  "drawn lc l s =
     s\<lparr>rowHeap := fold setPosition (enumerate 0 (renderedRefs lc l s)) (rowHeap s @ storedRows s l),
       arrayHeap := arrayHeap s @ [renderedRefs lc l s],
       tableCreated := True,
       tableData := Some (length (arrayHeap s)),
       activeLeagueId := Some l,
       timers := timers s @ [Redraw],
       rendered := rendered s @ [l]\<rparr>"

definition thrown :: "string \<Rightarrow> state \<Rightarrow> state" where
  "thrown l s = s\<lparr>activeLeagueId := Some l, rendered := rendered s @ [l]\<rparr>"

definition scheduled :: "(string \<Rightarrow> string \<Rightarrow> int) \<Rightarrow> string \<Rightarrow> state \<Rightarrow> state" where
  "scheduled lc l s =
     (drawn lc l s)\<lparr>timers := timers s @ [Redraw, RetryRender l, RetryRender l]\<rparr>"

text \<open>
  A store without dangling references: every array named by the mapping, serving as its
  prototype or shown by the table exists, and every row an array refers to exists.
  JavaScript has no other stores.
\<close>

definition wellFormed :: "state \<Rightarrow> bool" where
  "wellFormed s \<longleftrightarrow>
     list_all (\<lambda>kv. snd kv < length (arrayHeap s)) (standingsByLeague s) \<and>
     list_all (list_all (\<lambda>r. r < length (rowHeap s))) (arrayHeap s) \<and>
     (case tableData s of None \<Rightarrow> True | Some a \<Rightarrow> a < length (arrayHeap s)) \<and>
     (case standingsProto s of None \<Rightarrow> True | Some a \<Rightarrow> a < length (arrayHeap s))"

text \<open>
  A comparison of strings by code units, and a state holding league \<open>A\<close> with three rows:
  one with a rank sent by the host, one tied with it on points, one with no field at all.
  Both serve as concrete inputs.
\<close>

definition ordinalCompare :: "string \<Rightarrow> string \<Rightarrow> int" where
  "ordinalCompare a b = (if a < b then - 1 else if a = b then 0 else 1)"

definition exampleState :: state where
  "exampleState =
     initialState
     \<lparr>rowHeap :=
        [noFields\<lparr>equipeName := Some ''X'', points := Some 3, differentiel := Some 1,
                  position := Some 7, teamUrl := Some ''/t1''\<rparr>,
         noFields\<lparr>equipeName := Some ''Y'', points := Some 3, differentiel := Some 2\<rparr>,
         noFields],
      arrayHeap := [[0, 1, 2]],
      standingsByLeague := [(''A'', 0)],
      domReady := True\<rparr>"

text \<open>
  The state once \<^verbatim>\<open>standingsByLeague[leagueId] = standings\<close> has run, with the array
  of the message in the store; a payload of \<^verbatim>\<open>UPDATE_TABLE\<close> for league \<open>B\<close>, and one
  whose league id is \<^verbatim>\<open>__proto__\<close>.
\<close>

definition stored :: "string \<Rightarrow> row list \<Rightarrow> state \<Rightarrow> state" where
  "stored leagueId standings s =
     setStandings leagueId (length (arrayHeap s))
       (s\<lparr>rowHeap := rowHeap s @ standings,
          arrayHeap := arrayHeap s @ [[length (rowHeap s) ..< length (rowHeap s) + length standings]]\<rparr>)"



text \<open>The state in which the sample has been stored, before the selector and the render.\<close>

definition sampleStored :: "state \<Rightarrow> state" where
  "sampleStored s =
     s\<lparr>rowHeap := rowHeap s @ sampleRows,
       arrayHeap := arrayHeap s @ [[length (rowHeap s) ..< length (rowHeap s) + length sampleRows]],
       leagues := [\<lparr>l_id = ''Tr1'', l_name = Some ''Club Tomohawk'', l_div = None, l_label = None\<rparr>],
       standingsByLeague := [(''Tr1'', length (arrayHeap s))],
       standingsProto := None\<rparr>"

text \<open>
  How a browser reads text content back: each of the five character references stands
  for its character. It serves to say that escaped text is displayed literally.
\<close>

fun unescapeHtml :: "string \<Rightarrow> string" where
  "unescapeHtml [] = []"
| "unescapeHtml (c # cs) =
     (if c = CHR ''&'' then
        (if take 4 cs = ''amp;'' then CHR ''&'' # unescapeHtml (drop 4 cs)
         else if take 3 cs = ''lt;'' then CHR ''<'' # unescapeHtml (drop 3 cs)
         else if take 3 cs = ''gt;'' then CHR ''>'' # unescapeHtml (drop 3 cs)
         else if take 5 cs = ''quot;'' then CHR 0x22 # unescapeHtml (drop 5 cs)
         else if take 4 cs = ''#39;'' then CHR 0x27 # unescapeHtml (drop 4 cs)
         else c # unescapeHtml cs)
      else c # unescapeHtml cs)"

text \<open>The state a handler leaves, whether it returned or threw.\<close>

definition after :: "error \<times> state + state \<Rightarrow> state" where
  "after r = (case r of Inl es \<Rightarrow> snd es | Inr s \<Rightarrow> s)"

text \<open>
  The states the widget can be in: the initial state, and any state an event leads to.
  A timer callback runs only if it was scheduled, DOM-ready happens once, and a click
  is on a row the table shows.
\<close>

inductive reachable :: "(string \<Rightarrow> string \<Rightarrow> int) \<Rightarrow> state \<Rightarrow> bool" for lc where
  start: "reachable lc initialState"
| message: "reachable lc s \<Longrightarrow> reachable lc (after (onMessageFromHost lc dat s))"
| domContentLoaded: "reachable lc s \<Longrightarrow> \<not> domReady s \<Longrightarrow> reachable lc (after (onDOMContentLoaded lc s))"
| timer: "reachable lc s \<Longrightarrow> cb \<in> set (timers s) \<Longrightarrow> reachable lc (after (fire lc cb s))"
| selectChange: "reachable lc s \<Longrightarrow> reachable lc (after (onSelectChange lc v s))"
| click: "reachable lc s \<Longrightarrow> r \<in> set (displayedRows s) \<Longrightarrow> reachable lc (cellClick r s)"

section \<open>The sort\<close>

lemma mset_insertBy: "mset (insertBy cmp x xs) = add_mset x (mset xs)"
  by (induction xs) auto

lemma mset_arraySort: "mset (arraySort cmp xs) = mset xs"
  by (induction xs) (auto simp: mset_insertBy)

lemma set_arraySort: "set (arraySort cmp xs) = set xs"
  using mset_arraySort [of cmp xs] by (metis set_mset_mset)

lemma length_arraySort: "length (arraySort cmp xs) = length xs"
  using mset_arraySort [of cmp xs] by (metis size_mset)

lemma distinct_arraySort: "distinct (arraySort cmp xs) = distinct xs"
  using mset_arraySort [of cmp xs] by (metis distinct_count_atmost_1 set_mset_mset)

lemma map_insertBy:
  "map f (insertBy (\<lambda>x y. cmp (f x) (f y)) x xs) = insertBy cmp (f x) (map f xs)"
  by (induction xs) auto

lemma map_arraySort:
  "map f (arraySort (\<lambda>x y. cmp (f x) (f y)) xs) = arraySort cmp (map f xs)"
  by (induction xs) (auto simp: map_insertBy)

lemma set_insertBy: "set (insertBy cmp x xs) = insert x (set xs)"
  by (induction xs) auto

lemma sorted_insertBy:
  assumes "totalCmp cmp" "transCmp cmp" "sorted_wrt (\<lambda>a b. cmp a b \<le> 0) xs"
  shows "sorted_wrt (\<lambda>a b. cmp a b \<le> 0) (insertBy cmp x xs)"
  using assms(3)
proof (induction xs)
  case Nil
  then show ?case by simp
next
  case (Cons y ys)
  show ?case
  proof (cases "cmp x y \<le> 0")
    case True
    have "\<forall>z\<in>set ys. cmp x z \<le> 0"
      using True Cons.prems assms(2) unfolding transCmp_def by auto
    with True Cons.prems show ?thesis by simp
  next
    case False
    then have "cmp y x \<le> 0" using assms(1) unfolding totalCmp_def by blast
    with False Cons show ?thesis by (auto simp: set_insertBy)
  qed
qed

lemma sorted_arraySort:
  "totalCmp cmp \<Longrightarrow> transCmp cmp \<Longrightarrow> sorted_wrt (\<lambda>a b. cmp a b \<le> 0) (arraySort cmp xs)"
  by (induction xs) (auto intro: sorted_insertBy)

lemma insertBy_least: "\<forall>y\<in>set ys. cmp x y \<le> 0 \<Longrightarrow> insertBy cmp x ys = x # ys"
  by (cases ys) auto

lemma arraySort_sorted_id:
  "sorted_wrt (\<lambda>a b. cmp a b \<le> 0) xs \<Longrightarrow> arraySort cmp xs = xs"
  by (induction xs) (auto simp: insertBy_least)

section \<open>Rendering through the store\<close>

lemma length_fold_setPosition: "length (fold setPosition irs h) = length h"
  by (induction irs arbitrary: h) (auto simp: setPosition_def)

lemma fold_setPosition_frame:
  "a \<notin> snd ` set irs \<Longrightarrow> fold setPosition irs h ! a = h ! a"
  by (induction irs arbitrary: h) (auto simp: setPosition_def)

lemma fold_setPosition_take:
  "\<forall>ir\<in>set irs. n \<le> snd ir \<Longrightarrow> take n (fold setPosition irs h) = take n h"
  by (induction irs arbitrary: h) (auto simp: setPosition_def)

lemma map_fold_setPosition:
  "distinct refs \<Longrightarrow> \<forall>r\<in>set refs. r < length h \<Longrightarrow>
   map (\<lambda>r. fold setPosition (enumerate i refs) h ! r) refs
     = assignPositions i (map (\<lambda>r. h ! r) refs)"
proof (induction refs arbitrary: i h)
  case Nil
  then show ?case by (simp add: assignPositions_def)
next
  case (Cons r refs)
  let ?h = "setPosition (i, r) h"
  have len: "length ?h = length h" by (simp add: setPosition_def)
  have notin: "r \<notin> snd ` set (enumerate (Suc i) refs)"
    using Cons.prems(1) by (auto simp: in_set_enumerate_eq)
  have hd: "fold setPosition (enumerate (Suc i) refs) ?h ! r = (h ! r)\<lparr>position := Some (int i + 1)\<rparr>"
    using Cons.prems(2) by (simp add: fold_setPosition_frame [OF notin] setPosition_def)
  have tl: "map (\<lambda>r. fold setPosition (enumerate (Suc i) refs) ?h ! r) refs
              = assignPositions (Suc i) (map (\<lambda>r. ?h ! r) refs)"
    using Cons.prems by (intro Cons.IH) (auto simp: len)
  have same: "map (\<lambda>r. ?h ! r) refs = map (\<lambda>r. h ! r) refs"
    using Cons.prems(1) by (auto simp: setPosition_def intro!: nth_list_update_neq)
  show ?case using hd tl same by (simp add: assignPositions_def)
qed

lemma storedRows_thrown: "storedRows (thrown l s) k = storedRows s k"
  by (simp add: storedRows_def getStandings_def rowsAt_def thrown_def
      split: option.split jsvalue.split)

lemma mapSource_eq: "mapSource s l = (if readable s l then Inr (storedRows s l) else Inl TypeError)"
  by (simp add: mapSource_def readable_def storedRows_def split: jsvalue.split)

lemma mapSource_thrown: "mapSource (thrown l s) k = mapSource s k"
  by (simp add: mapSource_def getStandings_def rowsAt_def thrown_def
      split: option.split jsvalue.split)

lemma renderLeague_eq:
  "renderLeague lc l s = (if readable s l then Inr (drawn lc l s) else Inl (TypeError, thrown l s))"
proof (cases "readable s l")
  case True
  then have "mapSource (thrown l s) l = Inr (storedRows s l)"
    by (simp only: mapSource_thrown) (simp add: mapSource_eq)
  then show ?thesis
    using True
    by (simp add: renderLeague_def thrown_def [symmetric] Let_def)
      (simp add: thrown_def allocArray_def sortArray_def forEachPosition_def initTable_def
        setData_def renderedRefs_def drawn_def)
next
  case False
  then have "mapSource (thrown l s) l = Inl TypeError"
    by (simp only: mapSource_thrown) (simp add: mapSource_eq)
  then show ?thesis
    using False by (simp add: renderLeague_def thrown_def [symmetric] Let_def)
qed

lemma set_renderedRefs:
  "set (renderedRefs lc l s) = {length (rowHeap s) ..< length (rowHeap s) + length (storedRows s l)}"
  by (simp add: renderedRefs_def set_arraySort)

lemma distinct_renderedRefs: "distinct (renderedRefs lc l s)"
  by (simp add: renderedRefs_def distinct_arraySort)

lemma map_nth_append_upt: "map (\<lambda>r. (xs @ ys) ! r) [length xs ..< length xs + length ys] = ys"
  by (rule nth_equalityI) (auto simp: nth_append)

lemma deref_renderedRefs:
  "map (\<lambda>r. (rowHeap s @ storedRows s l) ! r) (renderedRefs lc l s)
     = arraySort (compareRows lc) (storedRows s l)"
  unfolding renderedRefs_def
  by (simp only: map_arraySort [where f = "\<lambda>r. (rowHeap s @ storedRows s l) ! r"] map_nth_append_upt)

lemma displayedRows_drawn:
  "displayedRows (drawn lc l s) = assignPositions 0 (arraySort (compareRows lc) (storedRows s l))"
proof -
  have "displayedRows (drawn lc l s)
      = map (\<lambda>r. fold setPosition (enumerate 0 (renderedRefs lc l s)) (rowHeap s @ storedRows s l) ! r)
          (renderedRefs lc l s)"
    by (simp add: drawn_def displayedRows_def rowsAt_def)
  also have "\<dots> = assignPositions 0 (map (\<lambda>r. (rowHeap s @ storedRows s l) ! r) (renderedRefs lc l s))"
    by (rule map_fold_setPosition) (simp_all add: distinct_renderedRefs set_renderedRefs)
  finally show ?thesis by (simp only: deref_renderedRefs)
qed

lemma rowHeap_drawn:
  "take (length (rowHeap s)) (rowHeap (drawn lc l s)) = rowHeap s"
proof -
  have "\<forall>ir\<in>set (enumerate 0 (renderedRefs lc l s)). length (rowHeap s) \<le> snd ir"
    using set_renderedRefs [of lc l s] by (auto simp: in_set_enumerate_eq)
  then show ?thesis by (simp add: drawn_def fold_setPosition_take)
qed

lemma arrayHeap_drawn:
  "take (length (arrayHeap s)) (arrayHeap (drawn lc l s)) = arrayHeap s"
  by (simp add: drawn_def)

section \<open>The ranking\<close>

lemma compareRows_le: "compareRows lc a b \<le> 0 \<longleftrightarrow> rankedBefore lc a b"
  by (auto simp: compareRows_def rankedBefore_def orElse_def)

lemma totalCmp_compareRows: "consistentCompare lc \<Longrightarrow> totalCmp (compareRows lc)"
  unfolding totalCmp_def compareRows_le consistentCompare_def rankedBefore_def
  by (metis linorder_neqE_linordered_idom)

lemma transCmp_compareRows: "consistentCompare lc \<Longrightarrow> transCmp (compareRows lc)"
proof -
  assume c: "consistentCompare lc"
  have tr: "\<And>a b c. lc a b \<le> 0 \<Longrightarrow> lc b c \<le> 0 \<Longrightarrow> lc a c \<le> 0"
    using c unfolding consistentCompare_def by blast
  show ?thesis
    unfolding transCmp_def compareRows_le
  proof (intro allI impI)
    fix a b c
    assume ab: "rankedBefore lc a b" and bc: "rankedBefore lc b c"
    show "rankedBefore lc a c"
      using ab bc tr [of "orEmpty (equipeName a)" "orEmpty (equipeName b)" "orEmpty (equipeName c)"]
      unfolding rankedBefore_def by linarith
  qed
qed

lemma consistent_ordinalCompare: "consistentCompare ordinalCompare"
  by (auto simp: consistentCompare_def ordinalCompare_def)

lemma length_assignPositions: "length (assignPositions i rows) = length rows"
  by (simp add: assignPositions_def)

lemma nth_assignPositions:
  "j < length rows \<Longrightarrow> assignPositions i rows ! j = (rows ! j)\<lparr>position := Some (int (i + j) + 1)\<rparr>"
  by (simp add: assignPositions_def nth_enumerate_eq)


lemma compareRows_position:
  "compareRows lc (a\<lparr>position := p\<rparr>) (b\<lparr>position := q\<rparr>) = compareRows lc a b"
  by (simp add: compareRows_def)




lemma getStandings_example: "getStandings exampleState ''A'' = ArrayRef 0"
  by (simp add: getStandings_def exampleState_def initialState_def)

lemma readable_example: "readable exampleState ''A''"
  by (simp add: readable_def getStandings_example)

lemma storedRows_example:
  "storedRows exampleState ''A'' =
     [noFields\<lparr>equipeName := Some ''X'', points := Some 3, differentiel := Some 1,
               position := Some 7, teamUrl := Some ''/t1''\<rparr>,
      noFields\<lparr>equipeName := Some ''Y'', points := Some 3, differentiel := Some 2\<rparr>,
      noFields]"
  by (simp add: storedRows_def getStandings_example rowsAt_def)
    (simp add: exampleState_def initialState_def)

lemma displayedRows_example:
  "displayedRows (drawn ordinalCompare ''A'' exampleState) =
     [noFields\<lparr>equipeName := Some ''Y'', points := Some 3, differentiel := Some 2, position := Some 1\<rparr>,
      noFields\<lparr>equipeName := Some ''X'', points := Some 3, differentiel := Some 1,
               position := Some 2, teamUrl := Some ''/t1''\<rparr>,
      noFields\<lparr>position := Some 3\<rparr>]"
  by (simp add: displayedRows_drawn storedRows_example noFields_def compareRows_def
      orElse_def orZero_def orEmpty_def assignPositions_def enumerate_eq_zip ordinalCompare_def)

lemma renderLeague_example:
  "renderLeague ordinalCompare ''A'' exampleState = Inr (drawn ordinalCompare ''A'' exampleState)"
  by (simp add: renderLeague_eq readable_example)

lemma readable_own: "map_of (standingsByLeague s) l = Some a \<Longrightarrow> readable s l"
  by (simp add: readable_def getStandings_def)

lemma readable_plain:
  "standingsProto s = None \<Longrightarrow> l \<notin> set objectPrototypeKeys \<Longrightarrow> readable s l"
  by (simp add: readable_def getStandings_def split: option.split)




section \<open>Ranks and the store\<close>

lemma wellFormed_sbl:
  "wellFormed s \<Longrightarrow> map_of (standingsByLeague s) k = Some a \<Longrightarrow> a < length (arrayHeap s)"
  by (auto simp: wellFormed_def list_all_iff dest!: map_of_SomeD)

lemma wellFormed_refs:
  "wellFormed s \<Longrightarrow> a < length (arrayHeap s) \<Longrightarrow> r \<in> set (arrayHeap s ! a) \<Longrightarrow> r < length (rowHeap s)"
  by (auto simp: wellFormed_def list_all_iff)

lemma snd_set_enumerate: "snd ` set (enumerate n xs) = set xs"
  by (metis map_snd_enumerate set_map)

lemma rowsAt_drawn:
  assumes "wellFormed s" "a < length (arrayHeap s)"
  shows "rowsAt (drawn lc l s) a = rowsAt s a"
proof -
  have "fold setPosition (enumerate 0 (renderedRefs lc l s)) (rowHeap s @ storedRows s l) ! r = rowHeap s ! r"
    if "r \<in> set (arrayHeap s ! a)" for r
  proof -
    have lt: "r < length (rowHeap s)" using assms that by (rule wellFormed_refs)
    then have "r \<notin> snd ` set (enumerate 0 (renderedRefs lc l s))"
      using set_renderedRefs [of lc l s] by (simp add: snd_set_enumerate)
    then show ?thesis using lt by (simp add: fold_setPosition_frame nth_append)
  qed
  then show ?thesis using assms(2) by (simp add: rowsAt_def drawn_def nth_append)
qed

lemma wellFormed_proto:
  "wellFormed s \<Longrightarrow> standingsProto s = Some a \<Longrightarrow> a < length (arrayHeap s)"
  by (simp add: wellFormed_def)

lemma getStandings_drawn:
  "wellFormed s \<Longrightarrow> getStandings (drawn lc l s) k = getStandings s k"
  by (auto simp: getStandings_def drawn_def nth_append dest: wellFormed_proto
      split: option.split)

lemma readable_drawn: "wellFormed s \<Longrightarrow> readable (drawn lc l s) k = readable s k"
  by (simp add: readable_def getStandings_drawn)

lemma wellFormed_getStandings:
  "wellFormed s \<Longrightarrow> getStandings s k = ArrayRef a \<Longrightarrow> a < length (arrayHeap s)"
  by (auto simp: getStandings_def split: option.splits if_splits
      dest: wellFormed_sbl wellFormed_proto)

lemma storedRows_drawn:
  "wellFormed s \<Longrightarrow> storedRows (drawn lc l s) k = storedRows s k"
  by (simp add: storedRows_def getStandings_drawn rowsAt_drawn wellFormed_getStandings
      split: jsvalue.split)

lemma fields_thrown:
  "standingsByLeague (thrown l s) = standingsByLeague s"
  "standingsProto (thrown l s) = standingsProto s"
  "rowHeap (thrown l s) = rowHeap s" "arrayHeap (thrown l s) = arrayHeap s"
  "tableData (thrown l s) = tableData s" "outbox (thrown l s) = outbox s"
  "activeLeagueId (thrown l s) = Some l" "rendered (thrown l s) = rendered s @ [l]"
  by (simp_all add: thrown_def)

lemma fields_drawn:
  "standingsByLeague (drawn lc l s) = standingsByLeague s"
  "standingsProto (drawn lc l s) = standingsProto s"
  "outbox (drawn lc l s) = outbox s"
  "activeLeagueId (drawn lc l s) = Some l" "rendered (drawn lc l s) = rendered s @ [l]"
  "domReady (drawn lc l s) = domReady s" "initReceived (drawn lc l s) = initReceived s"
  "pendingPayload (drawn lc l s) = pendingPayload s" "leagues (drawn lc l s) = leagues s"
  "leagueSelect (drawn lc l s) = leagueSelect s"
  "timers (drawn lc l s) = timers s @ [Redraw]"
  by (simp_all add: drawn_def)

lemma wellFormed_thrown: "wellFormed (thrown l s) = wellFormed s"
  by (simp add: wellFormed_def thrown_def split: option.split)

lemma wellFormed_drawn: "wellFormed s \<Longrightarrow> wellFormed (drawn lc l s)"
  using set_renderedRefs [of lc l s]
  by (auto simp: wellFormed_def drawn_def list_all_iff length_fold_setPosition less_Suc_eq
      split: option.splits intro: trans_less_add1)

lemma position_assignPositions:
  "map position (assignPositions 0 rows) = map (\<lambda>i. Some (int i + 1)) [0..<length rows]"
  by (rule nth_equalityI) (simp_all add: length_assignPositions nth_assignPositions)

lemma sorted_cmp_assignPositions:
  "sorted_wrt (\<lambda>a b. compareRows lc a b \<le> 0) rows \<Longrightarrow>
   sorted_wrt (\<lambda>a b. compareRows lc a b \<le> 0) (assignPositions i rows)"
  by (simp add: sorted_wrt_iff_nth_less length_assignPositions nth_assignPositions compareRows_position)

lemma wellFormed_example: "wellFormed exampleState"
  by (simp add: wellFormed_def exampleState_def initialState_def)

lemma standingsByLeague_example: "standingsByLeague exampleState = [(''A'', 0)]"
  by (simp add: exampleState_def)

text \<open>
  C2. After \<^verbatim>\<open>renderLeague\<close> has sorted the rows of a league, the row at index \<open>i\<close> of
  the list it displays has \<^verbatim>\<open>position\<close> \<open>i + 1\<close>, for every index of the list: the
  ranks are 1, 2, 3 and so on without a gap, whatever \<^verbatim>\<open>position\<close> the stored rows
  carried. \<^verbatim>\<open>renderLeague\<close> gets to sort whenever the league id is readable; where it
  is not, it throws and displays nothing new.
\<close>

theorem renderLeague_positions:
  "(readable s leagueId \<longrightarrow>
      (\<exists>s'. renderLeague lc leagueId s = Inr s' \<and>
         length (displayedRows s') = length (storedRows s leagueId) \<and>
         (\<forall>i < length (storedRows s leagueId).
            position (displayedRows s' ! i) = Some (int i + 1)))) \<and>
   (\<not> readable s leagueId \<longrightarrow>
      renderLeague lc leagueId s
        = Inl (TypeError, s\<lparr>activeLeagueId := Some leagueId, rendered := rendered s @ [leagueId]\<rparr>))"
  by (simp add: renderLeague_eq thrown_def displayedRows_drawn length_assignPositions
      nth_assignPositions length_arraySort)

theorem renderLeague_positions_witness:
  "readable exampleState ''A'' \<and>
   length (storedRows exampleState ''A'') = 3 \<and>
   map position (storedRows exampleState ''A'') = [Some 7, None, None] \<and>
   (\<exists>s'. renderLeague ordinalCompare ''A'' exampleState = Inr s' \<and>
      length (displayedRows s') = 3 \<and>
      position (displayedRows s' ! 0) = Some 1 \<and>
      position (displayedRows s' ! 1) = Some 2 \<and>
      position (displayedRows s' ! 2) = Some 3)"
  using renderLeague_positions [of exampleState "''A''" ordinalCompare] readable_example
  by (auto simp: storedRows_example noFields_def renderLeague_example)

text \<open>
  C3. The ranking is deterministic. Sorting a sorted list of rows again changes nothing,
  the rows \<^verbatim>\<open>renderLeague\<close> displays are a fixed point of the sort, rendering a league
  a second time displays the same rows with the same ranks, and two states that store
  the same rows for a league display the same rows with the same ranks. This is said of
  the calls that get to sort, those with a readable league id.
\<close>

theorem renderLeague_deterministic:
  assumes "consistentCompare lc" "wellFormed s"
  shows "arraySort (compareRows lc) (arraySort (compareRows lc) rows) = arraySort (compareRows lc) rows \<and>
         (readable s leagueId \<longrightarrow>
            (\<exists>s'. renderLeague lc leagueId s = Inr s' \<and>
               arraySort (compareRows lc) (displayedRows s') = displayedRows s' \<and>
               (\<exists>s''. renderLeague lc leagueId s' = Inr s'' \<and> displayedRows s'' = displayedRows s') \<and>
               (\<forall>t'. storedRows t leagueId = storedRows s leagueId \<and>
                     renderLeague lc leagueId t = Inr t' \<longrightarrow>
                     displayedRows t' = displayedRows s') \<and>
               (readable t leagueId \<and> storedRows t leagueId = storedRows s leagueId \<longrightarrow>
                  (\<exists>t'. renderLeague lc leagueId t = Inr t' \<and>
                     displayedRows t' = displayedRows s'))))"
proof -
  have srt: "sorted_wrt (\<lambda>a b. compareRows lc a b \<le> 0) (arraySort (compareRows lc) xs)" for xs
    using assms(1) by (simp add: sorted_arraySort totalCmp_compareRows transCmp_compareRows)
  have 1: "arraySort (compareRows lc) (arraySort (compareRows lc) rows) = arraySort (compareRows lc) rows"
    using srt by (rule arraySort_sorted_id)
  have 2: "arraySort (compareRows lc) (displayedRows (drawn lc leagueId s))
           = displayedRows (drawn lc leagueId s)"
    unfolding displayedRows_drawn
    by (rule arraySort_sorted_id) (rule sorted_cmp_assignPositions [OF srt])
  have 3: "displayedRows (drawn lc leagueId (drawn lc leagueId s))
           = displayedRows (drawn lc leagueId s)"
    using assms(2) by (simp add: displayedRows_drawn storedRows_drawn)
  have 4: "displayedRows t' = displayedRows (drawn lc leagueId s)"
    if "storedRows t leagueId = storedRows s leagueId" "renderLeague lc leagueId t = Inr t'" for t'
  proof -
    have "t' = drawn lc leagueId t"
      using that(2) by (simp add: renderLeague_eq split: if_splits)
    then show ?thesis using that(1) by (simp add: displayedRows_drawn)
  qed
  show ?thesis
  proof (intro conjI impI)
    show "arraySort (compareRows lc) (arraySort (compareRows lc) rows) = arraySort (compareRows lc) rows"
      by (rule 1)
  next
    assume r: "readable s leagueId"
    have a: "renderLeague lc leagueId s = Inr (drawn lc leagueId s)"
      using r by (simp add: renderLeague_eq)
    have b: "renderLeague lc leagueId (drawn lc leagueId s) = Inr (drawn lc leagueId (drawn lc leagueId s))"
      using r assms(2) by (simp add: renderLeague_eq readable_drawn)
    have c: "\<exists>s''. renderLeague lc leagueId (drawn lc leagueId s) = Inr s'' \<and>
               displayedRows s'' = displayedRows (drawn lc leagueId s)"
      using b 3 by simp
    have d: "\<forall>t'. storedRows t leagueId = storedRows s leagueId \<and>
                     renderLeague lc leagueId t = Inr t' \<longrightarrow>
                     displayedRows t' = displayedRows (drawn lc leagueId s)"
      using 4 by blast
    have e: "readable t leagueId \<and> storedRows t leagueId = storedRows s leagueId \<longrightarrow>
                  (\<exists>t'. renderLeague lc leagueId t = Inr t' \<and>
                     displayedRows t' = displayedRows (drawn lc leagueId s))"
      by (simp add: renderLeague_eq displayedRows_drawn)
    show "\<exists>s'. renderLeague lc leagueId s = Inr s' \<and>
               arraySort (compareRows lc) (displayedRows s') = displayedRows s' \<and>
               (\<exists>s''. renderLeague lc leagueId s' = Inr s'' \<and> displayedRows s'' = displayedRows s') \<and>
               (\<forall>t'. storedRows t leagueId = storedRows s leagueId \<and>
                     renderLeague lc leagueId t = Inr t' \<longrightarrow>
                     displayedRows t' = displayedRows s') \<and>
               (readable t leagueId \<and> storedRows t leagueId = storedRows s leagueId \<longrightarrow>
                  (\<exists>t'. renderLeague lc leagueId t = Inr t' \<and>
                     displayedRows t' = displayedRows s'))"
      by (rule exI [of _ "drawn lc leagueId s"]) (intro conjI a 2 c d e)
  qed
qed

theorem renderLeague_deterministic_witness:
  "consistentCompare ordinalCompare \<and> wellFormed exampleState \<and> readable exampleState ''A'' \<and>
   arraySort (compareRows ordinalCompare) (arraySort (compareRows ordinalCompare) (storedRows exampleState ''A''))
     = arraySort (compareRows ordinalCompare) (storedRows exampleState ''A'') \<and>
   (\<exists>s'. renderLeague ordinalCompare ''A'' exampleState = Inr s' \<and>
      map equipeName (displayedRows s') = [Some ''Y'', Some ''X'', None] \<and>
      arraySort (compareRows ordinalCompare) (displayedRows s') = displayedRows s' \<and>
      (\<exists>s''. renderLeague ordinalCompare ''A'' s' = Inr s'' \<and> displayedRows s'' = displayedRows s'))"
  using renderLeague_deterministic [OF consistent_ordinalCompare wellFormed_example,
      of "storedRows exampleState ''A''" "''A''" exampleState]
    consistent_ordinalCompare wellFormed_example readable_example
  by (auto simp: renderLeague_example displayedRows_example noFields_def)

text \<open>
  C9. \<^verbatim>\<open>renderLeague\<close> does not change the stored standings: the mapping is the same,
  every object that existed before the call is unchanged (the sort and the ranks are
  written to copies), so every league holds the same rows, with the \<^verbatim>\<open>position\<close> the
  host sent; this holds whether the call returns or throws. The ranks displayed are
  1, 2, 3 and so on, never the ones the host sent.
\<close>

theorem renderLeague_keeps_store:
  assumes "wellFormed s"
  shows "standingsByLeague (after (renderLeague lc leagueId s)) = standingsByLeague s \<and>
         standingsProto (after (renderLeague lc leagueId s)) = standingsProto s \<and>
         storedRows (after (renderLeague lc leagueId s)) k = storedRows s k \<and>
         take (length (rowHeap s)) (rowHeap (after (renderLeague lc leagueId s))) = rowHeap s \<and>
         take (length (arrayHeap s)) (arrayHeap (after (renderLeague lc leagueId s))) = arrayHeap s \<and>
         (readable s leagueId \<longrightarrow>
            (\<exists>s'. renderLeague lc leagueId s = Inr s' \<and>
               map position (displayedRows s')
                 = map (\<lambda>i. Some (int i + 1)) [0..<length (storedRows s leagueId)]))"
  using assms
  by (simp add: renderLeague_eq after_def storedRows_drawn rowHeap_drawn arrayHeap_drawn
      displayedRows_drawn position_assignPositions length_arraySort fields_drawn
      fields_thrown storedRows_thrown)

theorem renderLeague_keeps_store_witness:
  "wellFormed exampleState \<and> readable exampleState ''A'' \<and>
   standingsByLeague (after (renderLeague ordinalCompare ''A'' exampleState)) = [(''A'', 0)] \<and>
   map position (storedRows (after (renderLeague ordinalCompare ''A'' exampleState)) ''A'')
     = [Some 7, None, None] \<and>
   map equipeName (storedRows (after (renderLeague ordinalCompare ''A'' exampleState)) ''A'')
     = [Some ''X'', Some ''Y'', None] \<and>
   (\<exists>s'. renderLeague ordinalCompare ''A'' exampleState = Inr s' \<and>
      map position (displayedRows s') = [Some 1, Some 2, Some 3])"
  using renderLeague_keeps_store [OF wellFormed_example, of ordinalCompare "''A''" "''A''"]
    wellFormed_example readable_example
  by (simp add: storedRows_example noFields_def standingsByLeague_example renderLeague_example
      displayedRows_example)

section \<open>Storing the rows of a message\<close>


lemma stored_proto:
  "''__proto__'' \<notin> fst ` set (standingsByLeague s) \<Longrightarrow>
   stored ''__proto__'' rows s =
     s\<lparr>rowHeap := rowHeap s @ rows,
       arrayHeap := arrayHeap s @ [[length (rowHeap s) ..< length (rowHeap s) + length rows]],
       standingsProto := Some (length (arrayHeap s))\<rparr>"
  by (simp add: stored_def setStandings_def map_of_eq_None_iff)



lemma updateTable_eq:
  "updateTable lc l rows s =
     (if activeLeagueId s = Some l then renderLeague lc l (stored l rows s) else Inr (stored l rows s))"
  by (simp add: updateTable_def allocArray_def stored_def setStandings_def Let_def)

lemma set_update_subset: "set (AList.update k v al) \<subseteq> insert (k, v) (set al)"
  by (induction al) auto

lemma wellFormed_stored: "wellFormed s \<Longrightarrow> wellFormed (stored l rows s)"
  using set_update_subset [of l "length (arrayHeap s)" "standingsByLeague s"]
  by (auto simp: wellFormed_def stored_def setStandings_def list_all_iff less_Suc_eq
      split: option.splits intro: trans_less_add1)



lemma getStandings_stored_same:
  "getStandings (stored l rows s) l = ArrayRef (length (arrayHeap s))"
proof (cases "l = ''__proto__'' \<and> map_of (standingsByLeague s) l = None")
  case True
  then have l: "l = ''__proto__''" and n: "map_of (standingsByLeague s) ''__proto__'' = None"
    by blast+
  have "''__proto__'' \<notin> fst ` set (standingsByLeague s)"
    using n by (simp add: map_of_eq_None_iff)
  then have eq: "stored ''__proto__'' rows s =
     s\<lparr>rowHeap := rowHeap s @ rows,
       arrayHeap := arrayHeap s @ [[length (rowHeap s) ..< length (rowHeap s) + length rows]],
       standingsProto := Some (length (arrayHeap s))\<rparr>"
    by (rule stored_proto)
  show ?thesis unfolding l eq by (simp add: getStandings_def n)
next
  case False
  then have "stored l rows s =
     s\<lparr>rowHeap := rowHeap s @ rows,
       arrayHeap := arrayHeap s @ [[length (rowHeap s) ..< length (rowHeap s) + length rows]],
       standingsByLeague := AList.update l (length (arrayHeap s)) (standingsByLeague s)\<rparr>"
    by (auto simp: stored_def setStandings_def)
  then show ?thesis by (simp add: getStandings_def update_conv')
qed


lemma readable_stored_same: "readable (stored l rows s) l"
  by (simp add: readable_def getStandings_stored_same)






lemma updateTable_returns:
  "updateTable lc l rows s =
     Inr (if activeLeagueId s = Some l then drawn lc l (stored l rows s) else stored l rows s)"
  by (simp add: updateTable_eq renderLeague_eq readable_stored_same)


lemma bootstrapTimer_idle:
  "initReceived s \<or> standingsByLeague s \<noteq> [] \<Longrightarrow> bootstrapTimer lc s = Inr s"
  by (auto simp: bootstrapTimer_def)

lemma onDOMContentLoaded_no_pending:
  "pendingPayload s = None \<Longrightarrow>
   onDOMContentLoaded lc s = Inr (s\<lparr>domReady := True, timers := timers s @ [Bootstrap]\<rparr>)"
  by (simp add: onDOMContentLoaded_def)


lemma wellFormed_initialState: "wellFormed initialState"
  by (simp add: wellFormed_def initialState_def)

section \<open>Initialisation with the sample\<close>

lemma getStandings_cong:
  "arrayHeap t = arrayHeap s \<Longrightarrow> standingsByLeague t = standingsByLeague s \<Longrightarrow>
   standingsProto t = standingsProto s \<Longrightarrow> getStandings t k = getStandings s k"
  by (simp add: getStandings_def split: option.split)

lemma storedRows_cong:
  "rowHeap t = rowHeap s \<Longrightarrow> arrayHeap t = arrayHeap s \<Longrightarrow> standingsByLeague t = standingsByLeague s
   \<Longrightarrow> standingsProto t = standingsProto s \<Longrightarrow> storedRows t k = storedRows s k"
  by (simp add: storedRows_def rowsAt_def getStandings_cong [of t s] split: jsvalue.split)

lemma readable_cong:
  "arrayHeap t = arrayHeap s \<Longrightarrow> standingsByLeague t = standingsByLeague s \<Longrightarrow>
   standingsProto t = standingsProto s \<Longrightarrow> readable t k = readable s k"
  by (simp add: readable_def getStandings_cong [of t s])

lemma displayedRows_cong:
  "rowHeap t = rowHeap s \<Longrightarrow> arrayHeap t = arrayHeap s \<Longrightarrow> tableData t = tableData s
   \<Longrightarrow> displayedRows t = displayedRows s"
  by (simp add: displayedRows_def rowsAt_def split: option.split)

lemma wellFormed_cong:
  "rowHeap t = rowHeap s \<Longrightarrow> arrayHeap t = arrayHeap s \<Longrightarrow> standingsByLeague t = standingsByLeague s
   \<Longrightarrow> standingsProto t = standingsProto s \<Longrightarrow> tableData t = tableData s
   \<Longrightarrow> wellFormed t = wellFormed s"
  by (simp add: wellFormed_def split: option.split)

lemma populateLeagueDropdown_fields:
  "rowHeap (populateLeagueDropdown items s) = rowHeap s"
  "arrayHeap (populateLeagueDropdown items s) = arrayHeap s"
  "standingsByLeague (populateLeagueDropdown items s) = standingsByLeague s"
  "standingsProto (populateLeagueDropdown items s) = standingsProto s"
  "tableData (populateLeagueDropdown items s) = tableData s"
  "leagues (populateLeagueDropdown items s) = leagues s"
  "rendered (populateLeagueDropdown items s) = rendered s"
  "initReceived (populateLeagueDropdown items s) = initReceived s"
  "activeLeagueId (populateLeagueDropdown items s) = activeLeagueId s"
  "timers (populateLeagueDropdown items s) = timers s"
  by (simp_all add: populateLeagueDropdown_def split: option.split)

lemma selectValue_fields:
  "rowHeap (selectValue v s) = rowHeap s"
  "arrayHeap (selectValue v s) = arrayHeap s"
  "standingsByLeague (selectValue v s) = standingsByLeague s"
  "standingsProto (selectValue v s) = standingsProto s"
  "tableData (selectValue v s) = tableData s"
  "leagues (selectValue v s) = leagues s"
  "rendered (selectValue v s) = rendered s"
  "initReceived (selectValue v s) = initReceived s"
  "activeLeagueId (selectValue v s) = activeLeagueId s"
  "timers (selectValue v s) = timers s"
  by (simp_all add: selectValue_def split: option.split)

lemma readable_active: "readable (s\<lparr>activeLeagueId := x\<rparr>) k = readable s k"
  by (rule readable_cong) simp_all

lemma scheduleInitialRender_eq:
  "scheduleInitialRender lc l s =
     (if readable s l then Inr (scheduled lc l s) else Inl (TypeError, thrown l s))"
  by (simp add: scheduleInitialRender_def renderLeague_eq readable_active)
    (simp add: scheduled_def drawn_def thrown_def renderedRefs_def
      storedRows_cong [of "s\<lparr>activeLeagueId := Some l\<rparr>" s])

lemma scheduled_fields:
  "standingsByLeague (scheduled lc l s) = standingsByLeague s"
  "standingsProto (scheduled lc l s) = standingsProto s"
  "leagues (scheduled lc l s) = leagues s"
  "rendered (scheduled lc l s) = rendered s @ [l]"
  "initReceived (scheduled lc l s) = initReceived s"
  "activeLeagueId (scheduled lc l s) = Some l"
  "timers (scheduled lc l s) = timers s @ [Redraw, RetryRender l, RetryRender l]"
  by (simp_all add: scheduled_def drawn_def)

lemma displayedRows_scheduled:
  "displayedRows (scheduled lc l s)
     = assignPositions 0 (arraySort (compareRows lc) (storedRows s l))"
proof -
  have "displayedRows (scheduled lc l s) = displayedRows (drawn lc l s)"
    by (rule displayedRows_cong) (simp_all add: scheduled_def)
  then show ?thesis by (simp add: displayedRows_drawn)
qed

lemma storedRows_scheduled:
  assumes "wellFormed s"
  shows "storedRows (scheduled lc l s) k = storedRows s k"
proof -
  have "storedRows (scheduled lc l s) k = storedRows (drawn lc l s) k"
    by (rule storedRows_cong) (simp_all add: scheduled_def)
  then show ?thesis using assms by (simp add: storedRows_drawn)
qed

lemma wellFormed_scheduled:
  assumes "wellFormed s"
  shows "wellFormed (scheduled lc l s)"
proof -
  have "wellFormed (scheduled lc l s) = wellFormed (drawn lc l s)"
    by (rule wellFormed_cong) (simp_all add: scheduled_def)
  then show ?thesis using assms by (simp add: wellFormed_drawn)
qed

lemma readable_sampleStored:
  "readable (selectValue v (populateLeagueDropdown items (sampleStored s))) ''Tr1''"
  by (rule readable_own [of _ _ "length (arrayHeap s)"])
    (simp add: selectValue_fields populateLeagueDropdown_fields sampleStored_def)

lemma processInitPayload_sample:
  "processInitPayload lc (Some SAMPLE_PAYLOAD) s =
     Inr (scheduled lc ''Tr1'' (selectValue ''Tr1''
       (populateLeagueDropdown
          [\<lparr>l_id = ''Tr1'', l_name = Some ''Club Tomohawk'', l_div = None, l_label = None\<rparr>]
          (sampleStored s))))"
proof -
  have "processInitPayload lc (Some SAMPLE_PAYLOAD) s =
     scheduleInitialRender lc ''Tr1'' (selectValue ''Tr1''
       (populateLeagueDropdown
          [\<lparr>l_id = ''Tr1'', l_name = Some ''Club Tomohawk'', l_div = None, l_label = None\<rparr>]
          (sampleStored s)))"
    by (simp add: processInitPayload_def SAMPLE_PAYLOAD_def allocArray_def allocProto_def
        sampleStored_def Let_def)
  then show ?thesis by (simp add: scheduleInitialRender_eq readable_sampleStored)
qed

lemma storedRows_sampleStored: "storedRows (sampleStored s) ''Tr1'' = sampleRows"
  by (simp add: storedRows_def getStandings_def rowsAt_def sampleStored_def map_nth_append_upt)

lemma wellFormed_sampleStored: "wellFormed s \<Longrightarrow> wellFormed (sampleStored s)"
  by (auto simp: wellFormed_def sampleStored_def list_all_iff less_Suc_eq
      split: option.splits intro: trans_less_add1)

lemma arraySort_sampleRows: "arraySort (compareRows lc) sampleRows = sampleRows"
  by (simp add: sampleRows_def sampleRow_def compareRows_def orElse_def orZero_def)

lemma sample_displayed:
  "map equipeName (assignPositions 0 sampleRows)
     = [Some ''CHAKS'', Some ''Kelb United'', Some ''Leaf'', Some ''Northside'', Some ''Royal Academy'']"
  "map position (assignPositions 0 sampleRows) = [Some 1, Some 2, Some 3, Some 4, Some 5]"
  by (simp_all add: assignPositions_def sampleRows_def sampleRow_def enumerate_eq_zip upt_rec)

text \<open>What the sample leads to, from any state without dangling references.\<close>

lemma sample_loaded:
  assumes "wellFormed s"
  shows "\<exists>s'. processInitPayload lc (Some SAMPLE_PAYLOAD) s = Inr s' \<and> s' \<noteq> s \<and>
           map fst (standingsByLeague s') = [''Tr1''] \<and>
           storedRows s' ''Tr1'' = sampleRows \<and>
           map l_id (leagues s') = [''Tr1''] \<and>
           activeLeagueId s' = Some ''Tr1'' \<and>
           rendered s' = rendered s @ [''Tr1''] \<and>
           initReceived s' = initReceived s \<and>
           displayedRows s' = assignPositions 0 sampleRows"
proof -
  let ?s3 = "selectValue ''Tr1'' (populateLeagueDropdown
          [\<lparr>l_id = ''Tr1'', l_name = Some ''Club Tomohawk'', l_div = None, l_label = None\<rparr>]
          (sampleStored s))"
  let ?s' = "scheduled lc ''Tr1'' ?s3"
  have st: "storedRows ?s3 ''Tr1'' = sampleRows"
    using storedRows_sampleStored [of s]
    by (simp add: storedRows_cong [of ?s3 "sampleStored s"] selectValue_fields populateLeagueDropdown_fields)
  have wf: "wellFormed ?s3"
    using wellFormed_sampleStored [OF assms]
    by (simp add: wellFormed_cong [of ?s3 "sampleStored s"] selectValue_fields populateLeagueDropdown_fields)
  have 1: "processInitPayload lc (Some SAMPLE_PAYLOAD) s = Inr ?s'"
    by (rule processInitPayload_sample)
  have 2: "?s' \<noteq> s"
  proof
    assume "?s' = s"
    then have "rendered ?s' = rendered s" by simp
    then show False
      by (simp add: scheduled_fields selectValue_fields populateLeagueDropdown_fields
          sampleStored_def)
  qed
  have 3: "map fst (standingsByLeague ?s') = [''Tr1'']" "map l_id (leagues ?s') = [''Tr1'']"
    "activeLeagueId ?s' = Some ''Tr1''" "rendered ?s' = rendered s @ [''Tr1'']"
    "initReceived ?s' = initReceived s"
    by (simp_all add: scheduled_fields selectValue_fields populateLeagueDropdown_fields
        sampleStored_def)
  have 4: "storedRows ?s' ''Tr1'' = sampleRows"
    using st by (simp add: storedRows_scheduled [OF wf])
  have 5: "displayedRows ?s' = assignPositions 0 sampleRows"
    by (simp add: displayedRows_scheduled st arraySort_sampleRows)
  show ?thesis by (rule exI [of _ ?s']) (intro conjI 1 2 3 4 5)
qed

section \<open>Updates from the host\<close>












lemma flags_initialState:
  "\<not> domReady initialState" "\<not> initReceived initialState" "rendered initialState = []"
  "standingsByLeague initialState = []" "pendingPayload initialState = None"
  "activeLeagueId initialState = None" "timers initialState = []"
  by (simp_all add: initialState_def)




text \<open>
  C5. A message with a missing payload is to be ignored without an error, an
  \<^verbatim>\<open>INIT_WIDGET\<close> with no payload in particular. The code does not do so once the DOM
  is ready: the handler marks the init as received and passes the missing payload to
  \<^verbatim>\<open>processInitPayload\<close>, which throws a \<^verbatim>\<open>TypeError\<close>; the bootstrap timer then
  finds the init received and loads nothing.
\<close>

theorem init_without_payload_raises:
  "onDOMContentLoaded lc initialState = Inr (initialState\<lparr>domReady := True, timers := [Bootstrap]\<rparr>) \<and>
   onMessageFromHost lc (Some \<lparr>m_type = Some ''INIT_WIDGET'', m_payload = None\<rparr>)
     (initialState\<lparr>domReady := True, timers := [Bootstrap]\<rparr>)
     = Inl (TypeError, initialState\<lparr>domReady := True, initReceived := True, timers := [Bootstrap]\<rparr>) \<and>
   bootstrapTimer lc (initialState\<lparr>domReady := True, initReceived := True, timers := [Bootstrap]\<rparr>)
     = Inr (initialState\<lparr>domReady := True, initReceived := True, timers := [Bootstrap]\<rparr>)"
  by (simp add: onDOMContentLoaded_def onMessageFromHost_def processInitPayload_def truthy_def
      bootstrapTimer_def initialState_def)

section \<open>The bootstrap timer and the team cell\<close>

text \<open>
  C6. When the bootstrap timer fires, the sample is given to \<^verbatim>\<open>processInitPayload\<close>
  exactly when no \<^verbatim>\<open>INIT_WIDGET\<close> has been received and the stored mapping has no key.
  Then league \<open>Tr1\<close> holds the sample rows, is active and is displayed, ranked 1 to 5.
  When an \<^verbatim>\<open>INIT_WIDGET\<close> has been received or the mapping has a key, the callback
  leaves the state as it is.
\<close>

theorem bootstrap_timer:
  assumes "wellFormed s"
  shows "(\<not> initReceived s \<and> standingsByLeague s = [] \<longrightarrow>
            bootstrapTimer lc s = processInitPayload lc (Some SAMPLE_PAYLOAD) s \<and>
            (\<exists>s'. bootstrapTimer lc s = Inr s' \<and> s' \<noteq> s \<and>
               map fst (standingsByLeague s') = [''Tr1''] \<and>
               storedRows s' ''Tr1'' = sampleRows \<and>
               map l_id (leagues s') = [''Tr1''] \<and>
               activeLeagueId s' = Some ''Tr1'' \<and>
               rendered s' = rendered s @ [''Tr1''] \<and>
               displayedRows s' = assignPositions 0 sampleRows)) \<and>
         (initReceived s \<or> standingsByLeague s \<noteq> [] \<longrightarrow> bootstrapTimer lc s = Inr s)"
proof (intro conjI impI)
  assume c: "\<not> initReceived s \<and> standingsByLeague s = []"
  then show eq: "bootstrapTimer lc s = processInitPayload lc (Some SAMPLE_PAYLOAD) s"
    by (simp add: bootstrapTimer_def)
  obtain s' where 1: "processInitPayload lc (Some SAMPLE_PAYLOAD) s = Inr s'" and 2: "s' \<noteq> s"
    and 3: "map fst (standingsByLeague s') = [''Tr1'']" and 4: "storedRows s' ''Tr1'' = sampleRows"
    and 5: "map l_id (leagues s') = [''Tr1'']" and 6: "activeLeagueId s' = Some ''Tr1''"
    and 7: "rendered s' = rendered s @ [''Tr1'']"
    and 8: "displayedRows s' = assignPositions 0 sampleRows"
    using sample_loaded [OF assms, of lc] by (elim exE conjE) (rule that, assumption+)
  have 0: "bootstrapTimer lc s = Inr s'" using eq 1 by simp
  show "\<exists>s'. bootstrapTimer lc s = Inr s' \<and> s' \<noteq> s \<and>
               map fst (standingsByLeague s') = [''Tr1''] \<and>
               storedRows s' ''Tr1'' = sampleRows \<and>
               map l_id (leagues s') = [''Tr1''] \<and>
               activeLeagueId s' = Some ''Tr1'' \<and>
               rendered s' = rendered s @ [''Tr1''] \<and>
               displayedRows s' = assignPositions 0 sampleRows"
    by (rule exI [of _ s']) (intro conjI 0 2 3 4 5 6 7 8)
next
  assume "initReceived s \<or> standingsByLeague s \<noteq> []"
  then show "bootstrapTimer lc s = Inr s" by (rule bootstrapTimer_idle)
qed

theorem bootstrap_timer_witness:
  "wellFormed initialState \<and> \<not> initReceived initialState \<and> standingsByLeague initialState = [] \<and>
   (\<exists>s'. bootstrapTimer ordinalCompare initialState = Inr s' \<and>
      map fst (standingsByLeague s') = [''Tr1''] \<and>
      activeLeagueId s' = Some ''Tr1'' \<and>
      rendered s' = [''Tr1''] \<and>
      map equipeName (displayedRows s')
        = [Some ''CHAKS'', Some ''Kelb United'', Some ''Leaf'', Some ''Northside'', Some ''Royal Academy''] \<and>
      map position (displayedRows s') = [Some 1, Some 2, Some 3, Some 4, Some 5]) \<and>
   wellFormed exampleState \<and> standingsByLeague exampleState = [(''A'', 0)] \<and>
   bootstrapTimer ordinalCompare exampleState = Inr exampleState"
proof -
  note i = flags_initialState
  obtain s' where 1: "bootstrapTimer ordinalCompare initialState = Inr s'"
    and 2: "map fst (standingsByLeague s') = [''Tr1'']" and 3: "activeLeagueId s' = Some ''Tr1''"
    and 4: "rendered s' = rendered initialState @ [''Tr1'']"
    and 5: "displayedRows s' = assignPositions 0 sampleRows"
    using bootstrap_timer [OF wellFormed_initialState, of ordinalCompare, THEN conjunct1,
        rule_format, OF conjI [OF i(2) i(4)], THEN conjunct2]
    by (elim exE conjE) (rule that, assumption+)
  have a: "\<exists>s'. bootstrapTimer ordinalCompare initialState = Inr s' \<and>
      map fst (standingsByLeague s') = [''Tr1''] \<and>
      activeLeagueId s' = Some ''Tr1'' \<and>
      rendered s' = [''Tr1''] \<and>
      map equipeName (displayedRows s')
        = [Some ''CHAKS'', Some ''Kelb United'', Some ''Leaf'', Some ''Northside'', Some ''Royal Academy''] \<and>
      map position (displayedRows s') = [Some 1, Some 2, Some 3, Some 4, Some 5]"
    using 1 2 3 4 5 by (simp add: i sample_displayed)
  have b: "bootstrapTimer ordinalCompare exampleState = Inr exampleState"
    using bootstrap_timer [OF wellFormed_example, of ordinalCompare]
    by (simp add: standingsByLeague_example)
  show ?thesis
    by (intro conjI wellFormed_initialState i(2) i(4) a wellFormed_example
        standingsByLeague_example b)
qed

text \<open>
  C8. A click on the team cell of a row posts one \<^verbatim>\<open>TEAM_CLICK\<close> message when the row
  carries a \<^verbatim>\<open>teamUrl\<close> (present and not empty, which is what the handler tests), with
  the active league id, the team name of the row and its \<^verbatim>\<open>teamUrl\<close>; after a call of
  \<^verbatim>\<open>renderLeague\<close> the league id posted is that league. A click on a row without
  \<^verbatim>\<open>teamUrl\<close> posts nothing and changes nothing.
\<close>

theorem cellClick_posts:
  "(\<forall>u. teamUrl r = Some u \<and> u \<noteq> [] \<longrightarrow>
      cellClick r s = s\<lparr>outbox := outbox s @
        [\<lparr>tc_leagueId = activeLeagueId s, tc_equipeName = equipeName r, tc_url = u\<rparr>]\<rparr>) \<and>
   (teamUrl r = None \<or> teamUrl r = Some [] \<longrightarrow> cellClick r s = s) \<and>
   length (outbox (cellClick r s)) = length (outbox s) + (if truthy (teamUrl r) then 1 else 0) \<and>
   (\<forall>u. teamUrl r = Some u \<and> u \<noteq> [] \<longrightarrow>
      outbox (cellClick r (after (renderLeague lc leagueId s))) = outbox s @
        [\<lparr>tc_leagueId = Some leagueId, tc_equipeName = equipeName r, tc_url = u\<rparr>])"
  by (auto simp: cellClick_def truthy_def orEmpty_def renderLeague_eq after_def fields_drawn
      fields_thrown)

lemma outbox_example: "outbox exampleState = []"
  by (simp add: exampleState_def initialState_def)

lemma after_example:
  "after (renderLeague ordinalCompare ''A'' exampleState) = drawn ordinalCompare ''A'' exampleState"
  by (simp add: renderLeague_example after_def)

theorem cellClick_posts_witness:
  "displayedRows (after (renderLeague ordinalCompare ''A'' exampleState)) ! 1
     = noFields\<lparr>equipeName := Some ''X'', points := Some 3, differentiel := Some 1,
               position := Some 2, teamUrl := Some ''/t1''\<rparr> \<and>
   outbox (cellClick (displayedRows (after (renderLeague ordinalCompare ''A'' exampleState)) ! 1)
            (after (renderLeague ordinalCompare ''A'' exampleState)))
     = [\<lparr>tc_leagueId = Some ''A'', tc_equipeName = Some ''X'', tc_url = ''/t1''\<rparr>] \<and>
   outbox (cellClick (displayedRows (after (renderLeague ordinalCompare ''A'' exampleState)) ! 0)
            (after (renderLeague ordinalCompare ''A'' exampleState))) = []"
  using cellClick_posts [of "displayedRows (drawn ordinalCompare ''A'' exampleState) ! 1"
      "drawn ordinalCompare ''A'' exampleState" ordinalCompare "''A''"]
    cellClick_posts [of "displayedRows (drawn ordinalCompare ''A'' exampleState) ! 0"
      "drawn ordinalCompare ''A'' exampleState" ordinalCompare "''A''"]
  by (simp add: after_example displayedRows_example noFields_def fields_drawn outbox_example)

lemma escapeHtml_Cons: "escapeHtml (c # s) = escapeChar c @ escapeHtml s"
  by (simp add: escapeHtml_def)

lemma unescape_escapeChar: "unescapeHtml (escapeChar c @ t) = c # unescapeHtml t"
  by (simp add: escapeChar_def)

lemma unescape_escapeHtml: "unescapeHtml (escapeHtml s) = s"
  by (induction s) (simp_all add: escapeHtml_Cons unescape_escapeChar, simp add: escapeHtml_def)

lemma escapeChar_safe:
  "set (escapeChar c) \<inter> {CHR ''<'', CHR ''>'', CHR 0x22, CHR 0x27} = {}"
  by (simp add: escapeChar_def)

lemma escapeHtml_safe:
  "set (escapeHtml s) \<inter> {CHR ''<'', CHR ''>'', CHR 0x22, CHR 0x27} = {}"
  using escapeChar_safe by (induction s) (auto simp: escapeHtml_def)

lemma escapeAttr_safe: "CHR 0x22 \<notin> set (escapeAttr u)"
  by (induction u) (auto simp: escapeAttr_def)

lemma escapeAttr_Cons:
  "escapeAttr (c # u) = (if c = CHR 0x22 then ''&quot;'' else [c]) @ escapeAttr u"
  by (simp add: escapeAttr_def)

lemma escapeAttr_Nil: "escapeAttr [] = []"
  by (simp add: escapeAttr_def)

lemma escapeAttr_id: "CHR 0x22 \<notin> set u \<Longrightarrow> escapeAttr u = u"
  by (induction u) (auto simp: escapeAttr_Nil escapeAttr_Cons)

lemma unescape_other: "c \<noteq> CHR ''&'' \<Longrightarrow> unescapeHtml (c # t) = c # unescapeHtml t"
  by simp

lemma unescape_quot: "unescapeHtml (''&quot;'' @ t) = CHR 0x22 # unescapeHtml t"
  by simp

lemma unescape_escapeAttr: "CHR ''&'' \<notin> set u \<Longrightarrow> unescapeHtml (escapeAttr u) = u"
proof (induction u)
  case Nil
  show ?case by (simp add: escapeAttr_Nil)
next
  case (Cons c u)
  then have ih: "unescapeHtml (escapeAttr u) = u" and c: "c \<noteq> CHR ''&''" by auto
  show ?case
  proof (cases "c = CHR 0x22")
    case True
    then show ?thesis by (simp add: escapeAttr_Cons ih)
  next
    case False
    then show ?thesis using c by (simp add: escapeAttr_Cons ih)
  qed
qed

text \<open>
  C7. The formatter of the team cell inserts the team name with each of
  \<^verbatim>\<open>& < > " '\<close> replaced by its entity: the escaped name holds no \<^verbatim>\<open><\<close>, \<^verbatim>\<open>>\<close> or
  quote, and reading its entities back gives the name. The \<^verbatim>\<open>teamUrl\<close> is placed in
  \<^verbatim>\<open>data-href\<close> with every double quote replaced by \<^verbatim>\<open>&quot;\<close> and every other
  character kept, so the value cannot end the attribute; a URL without a double quote is
  placed as it is, and reading the entities of the value back gives the URL when the URL
  has no \<^verbatim>\<open>&\<close>. The cell is one \<^verbatim>\<open>span\<close> around the escaped name.
\<close>

theorem team_cell_escaped:
  "set (escapeHtml n) \<inter> {CHR ''<'', CHR ''>'', CHR 0x22, CHR 0x27} = {} \<and>
   unescapeHtml (escapeHtml n) = n \<and>
   escapeHtml (c # n) = escapeChar c @ escapeHtml n \<and>
   CHR 0x22 \<notin> set (escapeAttr u) \<and>
   escapeAttr [] = [] \<and>
   escapeAttr (c # u) = (if c = CHR 0x22 then ''&quot;'' else [c]) @ escapeAttr u \<and>
   (CHR 0x22 \<notin> set u \<longrightarrow> escapeAttr u = u) \<and>
   (CHR ''&'' \<notin> set u \<longrightarrow> unescapeHtml (escapeAttr u) = u) \<and>
   (\<forall>u. teamUrl r = Some u \<and> u \<noteq> [] \<longrightarrow>
      formatter r = ''<span class='' @ [CHR 0x22] @ ''team-link'' @ [CHR 0x22] @ '' data-href='' @ [CHR 0x22]
        @ escapeAttr u @ [CHR 0x22] @ ''>'' @ escapeHtml (orEmpty (equipeName r)) @ ''</span>'') \<and>
   (teamUrl r = None \<or> teamUrl r = Some [] \<longrightarrow>
      formatter r = ''<span class='' @ [CHR 0x22] @ ''team-text'' @ [CHR 0x22] @ ''>''
        @ escapeHtml (orEmpty (equipeName r)) @ ''</span>'')"
proof -
  have f: "(\<forall>u. teamUrl r = Some u \<and> u \<noteq> [] \<longrightarrow>
      formatter r = ''<span class='' @ [CHR 0x22] @ ''team-link'' @ [CHR 0x22] @ '' data-href='' @ [CHR 0x22]
        @ escapeAttr u @ [CHR 0x22] @ ''>'' @ escapeHtml (orEmpty (equipeName r)) @ ''</span>'')"
    "(teamUrl r = None \<or> teamUrl r = Some [] \<longrightarrow>
      formatter r = ''<span class='' @ [CHR 0x22] @ ''team-text'' @ [CHR 0x22] @ ''>''
        @ escapeHtml (orEmpty (equipeName r)) @ ''</span>'')"
    by (auto simp: formatter_def truthy_def orEmpty_def Let_def)
  have g: "CHR 0x22 \<notin> set u \<longrightarrow> escapeAttr u = u"
    by (simp add: escapeAttr_id)
  have h: "CHR ''&'' \<notin> set u \<longrightarrow> unescapeHtml (escapeAttr u) = u"
    by (simp add: unescape_escapeAttr)
  show ?thesis
    by (intro conjI escapeHtml_safe unescape_escapeHtml escapeHtml_Cons escapeAttr_safe
        escapeAttr_Nil escapeAttr_Cons g h f)
qed

theorem team_cell_escaped_witness:
  "escapeHtml ''<script>'' = ''&lt;script&gt;'' \<and>
   unescapeHtml ''&lt;script&gt;'' = ''<script>'' \<and>
   escapeAttr (''/t'' @ [CHR 0x22] @ ''x'') = ''/t&quot;x'' \<and>
   unescapeHtml ''/t&quot;x'' = ''/t'' @ [CHR 0x22] @ ''x'' \<and>
   escapeAttr ''/team<a>?x=1'' = ''/team<a>?x=1'' \<and>
   formatter (noFields\<lparr>equipeName := Some ''<script>'', teamUrl := Some (''/t'' @ [CHR 0x22] @ ''x'')\<rparr>)
     = ''<span class='' @ [CHR 0x22] @ ''team-link'' @ [CHR 0x22] @ '' data-href='' @ [CHR 0x22]
        @ ''/t&quot;x'' @ [CHR 0x22] @ ''>&lt;script&gt;</span>'' \<and>
   formatter (noFields\<lparr>equipeName := Some ''a&b''\<rparr>)
     = ''<span class='' @ [CHR 0x22] @ ''team-text'' @ [CHR 0x22] @ ''>a&amp;b</span>''"
  using team_cell_escaped [of "''<script>''" "CHR ''x''" "''/t'' @ [CHR 0x22] @ ''x''"
      "noFields\<lparr>equipeName := Some ''<script>'', teamUrl := Some (''/t'' @ [CHR 0x22] @ ''x'')\<rparr>"]
    team_cell_escaped [of "''a&b''" "CHR ''x''" "''/team<a>?x=1''" "noFields\<lparr>equipeName := Some ''a&b''\<rparr>"]
  by (simp add: noFields_def escapeHtml_def escapeChar_def escapeAttr_def orEmpty_def)

section \<open>The states the widget reaches\<close>

text \<open>
  Every handler keeps the store free of dangling references, whether it returns or
  throws, so every state the widget reaches satisfies \<open>wellFormed\<close>, the assumption made
  on the state above.
\<close>

lemma wellFormed_renderLeague: "wellFormed s \<Longrightarrow> wellFormed (after (renderLeague lc l s))"
  by (simp add: renderLeague_eq after_def wellFormed_drawn wellFormed_thrown)

lemma wellFormed_allocArray: "wellFormed s \<Longrightarrow> wellFormed (snd (allocArray rows s))"
  by (auto simp: wellFormed_def allocArray_def list_all_iff less_Suc_eq
      split: option.splits intro: trans_less_add1)

lemma allocArray_fields:
  "fst (allocArray rows s) = length (arrayHeap s)"
  "length (arrayHeap (snd (allocArray rows s))) = Suc (length (arrayHeap s))"
  "tableData (snd (allocArray rows s)) = tableData s"
  by (simp_all add: allocArray_def)

lemma allocStandings_wellFormed:
  "wellFormed s \<Longrightarrow> allocStandings m s = (sbl, s') \<Longrightarrow>
   wellFormed s' \<and> list_all (\<lambda>kv. snd kv < length (arrayHeap s')) sbl \<and>
   length (arrayHeap s) \<le> length (arrayHeap s') \<and> tableData s' = tableData s"
proof (induction m arbitrary: s sbl s')
  case Nil
  then show ?case by simp
next
  case (Cons kv m)
  obtain a s1 where a: "allocArray (snd kv) s = (a, s1)" by (cases "allocArray (snd kv) s")
  obtain m' s2 where r: "allocStandings m s1 = (m', s2)" by (cases "allocStandings m s1")
  have s1: "wellFormed s1" "a = length (arrayHeap s)" "length (arrayHeap s1) = Suc (length (arrayHeap s))"
    "tableData s1 = tableData s"
    using wellFormed_allocArray [OF Cons.prems(1), of "snd kv"] allocArray_fields [of "snd kv" s] a
    by simp_all
  have ih: "wellFormed s2" "list_all (\<lambda>kv. snd kv < length (arrayHeap s2)) m'"
    "length (arrayHeap s1) \<le> length (arrayHeap s2)" "tableData s2 = tableData s1"
    using Cons.IH [OF s1(1) r] by simp_all
  have "sbl = (fst kv, a) # m'" "s' = s2"
    using Cons.prems(2) a r by simp_all
  then show ?case using s1 ih by simp
qed

lemma allocProto_wellFormed:
  assumes "wellFormed s" "allocProto pr s = (pr', s')"
  shows "wellFormed s' \<and> (case pr' of None \<Rightarrow> True | Some a \<Rightarrow> a < length (arrayHeap s')) \<and>
         length (arrayHeap s) \<le> length (arrayHeap s') \<and> tableData s' = tableData s"
proof (cases pr)
  case None
  then show ?thesis using assms by (simp add: allocProto_def)
next
  case (Some rows)
  obtain a s1 where a: "allocArray rows s = (a, s1)" by (cases "allocArray rows s")
  have s1: "wellFormed s1" "a = length (arrayHeap s)" "length (arrayHeap s1) = Suc (length (arrayHeap s))"
    "tableData s1 = tableData s"
    using wellFormed_allocArray [OF assms(1), of rows] allocArray_fields [of rows s] a
    by simp_all
  have "pr' = Some a" "s' = s1"
    using assms(2) Some a by (simp_all add: allocProto_def)
  then show ?thesis using s1 by simp
qed

lemma wellFormed_assign:
  "wellFormed s \<Longrightarrow> list_all (\<lambda>kv. snd kv < length (arrayHeap s)) sbl \<Longrightarrow>
   (case pr of None \<Rightarrow> True | Some a \<Rightarrow> a < length (arrayHeap s)) \<Longrightarrow>
   wellFormed (s\<lparr>leagues := ls, standingsByLeague := sbl, standingsProto := pr\<rparr>)"
  by (auto simp: wellFormed_def split: option.splits)

lemma wellFormed_dropdown:
  "wellFormed (selectValue v (populateLeagueDropdown items s)) = wellFormed s"
  by (rule wellFormed_cong) (simp_all add: selectValue_fields populateLeagueDropdown_fields)

lemma wellFormed_populate: "wellFormed (populateLeagueDropdown items s) = wellFormed s"
  by (rule wellFormed_cong) (simp_all add: populateLeagueDropdown_fields)

lemma wellFormed_scheduleInitialRender:
  "wellFormed s \<Longrightarrow> wellFormed (after (scheduleInitialRender lc l s))"
  by (simp add: scheduleInitialRender_eq after_def wellFormed_scheduled wellFormed_thrown)

lemma wellFormed_processInitPayload:
  assumes "wellFormed s"
  shows "wellFormed (after (processInitPayload lc pl s))"
proof (cases pl)
  case None
  then show ?thesis using assms by (simp add: processInitPayload_def after_def)
next
  case (Some p)
  define shape where "shape = (case p_standingsByLeague p of None \<Rightarrow> fallbackShape (Some p) | Some m \<Rightarrow> (m, None))"
  define ls where "ls = (case p_leagues p of None \<Rightarrow> [] | Some l \<Rightarrow> l)"
  obtain sbl s1 where al: "allocStandings (fst shape) s = (sbl, s1)"
    by (cases "allocStandings (fst shape) s")
  obtain pr s1' where ap: "allocProto (snd shape) s1 = (pr, s1')"
    by (cases "allocProto (snd shape) s1")
  define s2 where "s2 = s1'\<lparr>leagues := ls, standingsByLeague := sbl, standingsProto := pr\<rparr>"
  define items where "items = (if ls \<noteq> [] then ls else keysToLeagues sbl)"
  have 1: "wellFormed s1" "list_all (\<lambda>kv. snd kv < length (arrayHeap s1)) sbl"
    using allocStandings_wellFormed [OF assms al] by simp_all
  have 2: "wellFormed s1'" "case pr of None \<Rightarrow> True | Some a \<Rightarrow> a < length (arrayHeap s1')"
    "length (arrayHeap s1) \<le> length (arrayHeap s1')"
    using allocProto_wellFormed [OF 1(1) ap] by simp_all
  have 3: "list_all (\<lambda>kv. snd kv < length (arrayHeap s1')) sbl"
    using 1(2) 2(3) by (auto simp: list_all_iff)
  have wf2: "wellFormed s2"
    unfolding s2_def using 2(1) 3 2(2) by (rule wellFormed_assign)
  have res: "processInitPayload lc pl s =
       (case items of [] \<Rightarrow> Inr (populateLeagueDropdown items s2)
        | it # _ \<Rightarrow> scheduleInitialRender lc (l_id it) (selectValue (l_id it) (populateLeagueDropdown items s2)))"
    using Some al ap
    by (simp add: processInitPayload_def Let_def shape_def ls_def s2_def items_def
        cong: list.case_cong)
  show ?thesis
  proof (cases items)
    case Nil
    then show ?thesis using wf2 by (simp add: res after_def wellFormed_populate)
  next
    case (Cons it rest)
    have "wellFormed (selectValue (l_id it) (populateLeagueDropdown items s2))"
      using wf2 by (simp add: wellFormed_dropdown)
    then show ?thesis
      using Cons by (simp add: res wellFormed_scheduleInitialRender)
  qed
qed

lemma wellFormed_updateTable: "wellFormed s \<Longrightarrow> wellFormed (after (updateTable lc l rows s))"
  by (simp add: updateTable_returns after_def wellFormed_stored wellFormed_drawn)

lemma wellFormed_onMessage:
  assumes "wellFormed s"
  shows "wellFormed (after (onMessageFromHost lc dat s))"
proof -
  have a: "wellFormed (s\<lparr>initReceived := True\<rparr>)"
    using assms by (simp add: wellFormed_cong [of "s\<lparr>initReceived := True\<rparr>" s])
  have b: "wellFormed (s\<lparr>initReceived := True, pendingPayload := q\<rparr>)" for q
    using assms by (simp add: wellFormed_cong [of "s\<lparr>initReceived := True, pendingPayload := q\<rparr>" s])
  have c: "wellFormed (after (Inr s))" using assms by (simp add: after_def)
  have d: "wellFormed (after (Inr (s\<lparr>initReceived := True, pendingPayload := q\<rparr>)))" for q
    using b by (simp add: after_def)
  show ?thesis
    using c d wellFormed_processInitPayload [OF a] wellFormed_updateTable [OF assms]
    by (simp add: onMessageFromHost_def Let_def split: option.split)
qed

lemma wellFormed_bootstrapTimer:
  "wellFormed s \<Longrightarrow> wellFormed (after (bootstrapTimer lc s))"
  using wellFormed_processInitPayload [of s lc "Some SAMPLE_PAYLOAD"]
  by (simp add: bootstrapTimer_def after_def)

lemma wellFormed_fire: "wellFormed s \<Longrightarrow> wellFormed (after (fire lc cb s))"
proof (cases cb)
  case Bootstrap
  assume "wellFormed s"
  then show ?thesis using Bootstrap by (simp add: fire_def wellFormed_bootstrapTimer)
next
  case (RetryRender l)
  assume "wellFormed s"
  then show ?thesis using RetryRender wellFormed_renderLeague [of s lc l]
    by (simp add: fire_def retryRender_def after_def)
next
  case Redraw
  assume "wellFormed s"
  then show ?thesis using Redraw
    by (auto simp: fire_def after_def redraw_def wellFormed_def split: option.splits)
qed

lemma wellFormed_onDOMContentLoaded:
  assumes "wellFormed s"
  shows "wellFormed (after (onDOMContentLoaded lc s))"
proof -
  let ?s1 = "s\<lparr>domReady := True\<rparr>"
  have wf1: "wellFormed ?s1" using assms by (simp add: wellFormed_cong [of ?s1 s])
  show ?thesis
  proof (cases "pendingPayload s")
    case None
    then show ?thesis
      using assms
      by (simp add: onDOMContentLoaded_no_pending after_def
          wellFormed_cong [of "s\<lparr>domReady := True, timers := timers s @ [Bootstrap]\<rparr>" s])
  next
    case (Some p)
    show ?thesis
    proof (cases "processInitPayload lc (Some p) ?s1")
      case (Inl e)
      then show ?thesis
        using Some wellFormed_processInitPayload [OF wf1, of lc "Some p"]
        by (simp add: onDOMContentLoaded_def after_def)
    next
      case (Inr s2)
      then have "wellFormed s2"
        using wellFormed_processInitPayload [OF wf1, of lc "Some p"] by (simp add: after_def)
      then have "wellFormed (s2\<lparr>pendingPayload := None, timers := timers s2 @ [Bootstrap]\<rparr>)"
        by (simp add: wellFormed_cong [of "s2\<lparr>pendingPayload := None, timers := timers s2 @ [Bootstrap]\<rparr>" s2])
      then show ?thesis
        using Some Inr by (simp add: onDOMContentLoaded_def after_def)
    qed
  qed
qed

lemma wellFormed_onSelectChange: "wellFormed s \<Longrightarrow> wellFormed (after (onSelectChange lc v s))"
proof (cases "leagueSelect s")
  case None
  assume "wellFormed s"
  then show ?thesis using None by (simp add: onSelectChange_def after_def)
next
  case (Some sel)
  assume "wellFormed s"
  then have "wellFormed (s\<lparr>leagueSelect := Some (sel\<lparr>sel_value := v\<rparr>)\<rparr>)"
    by (simp add: wellFormed_cong [of "s\<lparr>leagueSelect := Some (sel\<lparr>sel_value := v\<rparr>)\<rparr>" s])
  then show ?thesis using Some by (simp add: onSelectChange_def wellFormed_renderLeague)
qed

lemma wellFormed_cellClick: "wellFormed s \<Longrightarrow> wellFormed (cellClick r s)"
  by (auto simp: cellClick_def wellFormed_def split: option.splits)

lemma reachable_wellFormed: "reachable lc s \<Longrightarrow> wellFormed s"
  by (induction rule: reachable.induct)
    (simp_all add: wellFormed_initialState wellFormed_onMessage wellFormed_onDOMContentLoaded
      wellFormed_fire wellFormed_onSelectChange wellFormed_cellClick)

section \<open>Messages that are ignored\<close>

text \<open>
  A message without a kind or with a kind other than the two known ones, and an
  \<^verbatim>\<open>UPDATE_TABLE\<close> whose payload is missing or lacks a league id or an array of
  standings, leave the state as it is. An \<^verbatim>\<open>INIT_WIDGET\<close> without payload is buffered
  before DOM-ready and throws after it.
\<close>

lemma onMessage_no_kind:
  "\<not> truthy (m_type m) \<Longrightarrow> onMessageFromHost lc (Some m) s = Inr s"
  "onMessageFromHost lc None s = Inr s"
  by (simp_all add: onMessageFromHost_def truthy_def)

lemma onMessage_other_kind:
  "m_type m \<noteq> Some ''INIT_WIDGET'' \<Longrightarrow> m_type m \<noteq> Some ''UPDATE_TABLE'' \<Longrightarrow>
   onMessageFromHost lc (Some m) s = Inr s"
  by (simp add: onMessageFromHost_def)

lemma onMessage_update_malformed:
  "m_type m = Some ''UPDATE_TABLE'' \<Longrightarrow>
   m_payload m = None \<or>
   (\<exists>p. m_payload m = Some p \<and> (\<not> truthy (p_leagueId p) \<or> p_standings p = None)) \<Longrightarrow>
   onMessageFromHost lc (Some m) s = Inr s"
  by (auto simp: onMessageFromHost_def truthy_def split: option.split)

lemma onMessage_init_early:
  "\<not> domReady s \<Longrightarrow>
   onMessageFromHost lc (Some \<lparr>m_type = Some ''INIT_WIDGET'', m_payload = None\<rparr>) s
     = Inr (s\<lparr>initReceived := True, pendingPayload := None\<rparr>)"
  by (simp add: onMessageFromHost_def truthy_def)

lemma onMessage_init_no_payload:
  "domReady s \<Longrightarrow>
   onMessageFromHost lc (Some \<lparr>m_type = Some ''INIT_WIDGET'', m_payload = None\<rparr>) s
     = Inl (TypeError, s\<lparr>initReceived := True\<rparr>)"
  by (simp add: onMessageFromHost_def processInitPayload_def truthy_def)

end
